theory Spec2Isabelle
  imports Main
begin

section \<open>txcosm: the PAWS socket client and the HTTP client\<close>

text \<open>
  A shallow embedding of \<^verbatim>\<open>txcosm/PAWSClient.py\<close> and of the request bookkeeping of
  \<^verbatim>\<open>txcosm/HTTPClient.py\<close>. Every method becomes a function from the object's state
  to the new state; an exception is a value of \<open>py_error\<close>; a call into Twisted or into
  the logging module is an entry appended to a trace, in program order. The first part of
  the theory holds the definitions, the second part the lemmas and theorems.
\<close>

subsection \<open>Python values\<close>

datatype py_error = KeyError | TypeError | ValueError | AttributeError | Exception string

datatype level = DEBUG | INFO | WARNING | ERROR

text \<open>
  A log entry is the level and the format string of the \<^verbatim>\<open>logging\<close> call; the
  arguments substituted for \<^verbatim>\<open>%s\<close> are not rendered.
\<close>

type_synonym log_entry = "level \<times> string"

text \<open>
  What \<^verbatim>\<open>json.loads\<close> returns. A dict is an association list read with \<open>map_of\<close>;
  \<open>JNull\<close> is also Python's \<^verbatim>\<open>None\<close>. Numbers are integers: status codes are.
\<close>

datatype json =
    JNull
  | JBool bool
  | JNumber int
  | JString string
  | JArray "json list"
  | JObject "(string \<times> json) list"

text \<open>\<^verbatim>\<open>data[key]\<close> for a string key.\<close>

fun getitem :: "json \<Rightarrow> string \<Rightarrow> py_error + json" where
  "getitem (JObject kvs) k =
     (case map_of kvs k of None \<Rightarrow> Inl KeyError | Some v \<Rightarrow> Inr v)"
| "getitem _ k = Inl TypeError"

text \<open>\<^verbatim>\<open>startswith\<close> and the substring test \<^verbatim>\<open>needle in text\<close> on strings.\<close>

fun startswith :: "string \<Rightarrow> string \<Rightarrow> bool" where
  "startswith [] cs = True"
| "startswith (p # ps) [] = False"
| "startswith (p # ps) (c # cs) = (p = c \<and> startswith ps cs)"

fun contains :: "string \<Rightarrow> string \<Rightarrow> bool" where
  "contains needle [] = (needle = [])"
| "contains needle (c # cs) = (startswith needle (c # cs) \<or> contains needle cs)"

text \<open>\<^verbatim>\<open>name.lower()\<close> on a byte string: the ASCII capitals become small letters.\<close>

definition lower_char :: "char \<Rightarrow> char" where
  "lower_char c =
     (case map_of (zip ''ABCDEFGHIJKLMNOPQRSTUVWXYZ'' ''abcdefghijklmnopqrstuvwxyz'') c of
        Some l \<Rightarrow> l
      | None \<Rightarrow> c)"

definition lower :: "string \<Rightarrow> string" where
  "lower s = map lower_char s"

text \<open>\<^verbatim>\<open>key in value\<close> for a string key and a decoded JSON value.\<close>

fun py_in :: "string \<Rightarrow> json \<Rightarrow> py_error + bool" where
  "py_in k (JObject kvs) = Inr (k \<in> set (map fst kvs))"
| "py_in k (JString s) = Inr (contains k s)"
| "py_in k (JArray xs) = Inr (JString k \<in> set xs)"
| "py_in k _ = Inl TypeError"

text \<open>
  The tables of the client are dicts keyed by token strings. Looking a decoded JSON value
  up in such a dict hashes it first: a list or a dict is unhashable (\<^verbatim>\<open>TypeError\<close>), a
  string is looked up, anything else is hashable and equal to no string key.
\<close>

fun dict_key :: "json \<Rightarrow> py_error + string option" where
  "dict_key (JString t) = Inr (Some t)"
| "dict_key (JArray xs) = Inl TypeError"
| "dict_key (JObject kvs) = Inl TypeError"
| "dict_key _ = Inr None"

text \<open>\<^verbatim>\<open>text.split(d)\<close> for a one-character separator, and \<^verbatim>\<open>d.join(parts)\<close>.\<close>

fun split_str :: "char \<Rightarrow> string \<Rightarrow> string list" where
  "split_str d [] = [[]]"
| "split_str d (c # cs) =
     (if c = d then [] # split_str d cs
      else (case split_str d cs of
              [] \<Rightarrow> [[c]]
            | w # ws \<Rightarrow> (c # w) # ws))"

fun join :: "char \<Rightarrow> string list \<Rightarrow> string" where
  "join d [] = []"
| "join d (w # ws) = w @ concat (map ((#) d) ws)"

subsection \<open>PAWSProtocol: framing the byte stream\<close>

text \<open>
  \<open>receiver\<close> is the state behind \<^verbatim>\<open>self.factory.messageHandler\<close>: the handler is a
  parameter \<open>h\<close> that takes a message and that state and returns the exception it raised,
  if any, with the state it left.
\<close>

record 'c PAWSProtocol =
  buffer :: string
  receiver :: 'c
  protocol_log :: "log_entry list"

definition delimiter :: char where
  "delimiter = CHR 0x0A"

text \<open>The loop \<^verbatim>\<open>for msg in msgs[:-1]: self.factory.messageHandler(msg)\<close>.\<close>

fun deliver ::
  "(string \<Rightarrow> 'c \<Rightarrow> py_error option \<times> 'c) \<Rightarrow> string list \<Rightarrow> 'c \<Rightarrow> py_error option \<times> 'c"
where
  "deliver h [] c = (None, c)"
| "deliver h (m # ms) c =
     (case h m c of
        (Some e, c') \<Rightarrow> (Some e, c')
      | (None, c') \<Rightarrow> deliver h ms c')"

definition dataReceived ::
  "(string \<Rightarrow> 'c \<Rightarrow> py_error option \<times> 'c) \<Rightarrow> 'c PAWSProtocol \<Rightarrow> string
     \<Rightarrow> py_error option \<times> 'c PAWSProtocol"
where
  "dataReceived h p data =
     (let p1 = p\<lparr>buffer := buffer p @ data\<rparr> in
      if delimiter \<in> set (buffer p1) then
        (let msgs = split_str delimiter (buffer p1) in
         case deliver h (butlast msgs) (receiver p1) of
           (Some e, c') \<Rightarrow> (Some e, p1\<lparr>receiver := c'\<rparr>)
         | (None, c') \<Rightarrow> (None, p1\<lparr>receiver := c', buffer := last msgs\<rparr>))
      else
        (None, p1\<lparr>protocol_log :=
                      protocol_log p1 @ [(DEBUG, ''No message delimiter found yet.'')]\<rparr>))"

text \<open>A message handler that only records the messages it is handed.\<close>

definition record_message :: "string \<Rightarrow> string list \<Rightarrow> py_error option \<times> string list" where
  "record_message m c = (None, c @ [m])"

subsection \<open>PAWSProtocolFactory: the connection\<close>

text \<open>
  A \<^verbatim>\<open>Deferred\<close> is named by a number, taken from \<open>next_deferred\<close> when it is created.
  \<open>connection\<close> is \<^verbatim>\<open>None\<close> or the registered protocol instance, named by a number.
\<close>

datatype factory_event =
    ConnectTCP
  | LoseConnection
  | Write json
  | Fire nat bool
  | AddShutdownTrigger
  | Retry
  | FactoryLog level string

record PAWSProtocolFactory =
  connection :: "nat option"
  connected :: bool
  continueTrying :: bool
  connectDeferred :: "nat option"
  disconnectDeferred :: "nat option"
  next_deferred :: nat
  factory_events :: "factory_event list"

text \<open>What a method that returns a \<^verbatim>\<open>Deferred\<close> hands back: one still to fire, or
  \<^verbatim>\<open>defer.succeed(v)\<close>.\<close>

datatype 'a deferred = Unfired nat | Succeeded 'a

definition factory_init :: PAWSProtocolFactory where
  "factory_init =
     \<lparr>connection = None, connected = False, continueTrying = True,
      connectDeferred = None, disconnectDeferred = None,
      next_deferred = 0, factory_events = []\<rparr>"

definition factory_emit :: "factory_event \<Rightarrow> PAWSProtocolFactory \<Rightarrow> PAWSProtocolFactory" where
  "factory_emit e f = f\<lparr>factory_events := factory_events f @ [e]\<rparr>"

definition connectionStateHandler :: "bool \<Rightarrow> PAWSProtocolFactory \<Rightarrow> PAWSProtocolFactory" where
  "connectionStateHandler state f =
     (let f1 = f\<lparr>connected := state\<rparr>;
          f2 = (case connectDeferred f1 of
                  Some d \<Rightarrow> (factory_emit (Fire d state) f1)\<lparr>connectDeferred := None\<rparr>
                | None \<Rightarrow> f1)
      in case disconnectDeferred f2 of
           Some d \<Rightarrow> (factory_emit (Fire d (\<not> state)) f2)\<lparr>disconnectDeferred := None\<rparr>
         | None \<Rightarrow> f2)"

definition connect :: "PAWSProtocolFactory \<Rightarrow> bool deferred \<times> PAWSProtocolFactory" where
  "connect f =
     (if connection f = None then
        (let d = next_deferred f;
             f1 = factory_emit ConnectTCP f
         in (Unfired d, f1\<lparr>connectDeferred := Some d, next_deferred := Suc d\<rparr>))
      else
        (Succeeded True,
         factory_emit (FactoryLog WARNING ''Already connected, ignoring connect request'') f))"

definition disconnect :: "PAWSProtocolFactory \<Rightarrow> bool deferred \<times> PAWSProtocolFactory" where
  "disconnect f =
     (if connection f \<noteq> None then
        (let d = next_deferred f;
             f1 = (factory_emit LoseConnection f)\<lparr>continueTrying := False\<rparr>
         in (Unfired d, f1\<lparr>disconnectDeferred := Some d, next_deferred := Suc d\<rparr>))
      else
        (Succeeded True,
         factory_emit (FactoryLog WARNING ''Already disconnected, ignoring disconnect request'') f))"

definition registerConnection :: "nat \<Rightarrow> PAWSProtocolFactory \<Rightarrow> PAWSProtocolFactory" where
  "registerConnection proto f =
     factory_emit AddShutdownTrigger (connectionStateHandler True (f\<lparr>connection := Some proto\<rparr>))"

text \<open>\<^verbatim>\<open>buildProtocol\<close> re-enables reconnection and makes the protocol instance;
  Twisted then calls the instance's \<^verbatim>\<open>connectionMade\<close>, which registers it.\<close>

definition buildProtocol :: "PAWSProtocolFactory \<Rightarrow> PAWSProtocolFactory" where
  "buildProtocol f = f\<lparr>continueTrying := True\<rparr>"

definition connectionMade :: "nat \<Rightarrow> PAWSProtocolFactory \<Rightarrow> PAWSProtocolFactory" where
  "connectionMade proto f = registerConnection proto f"

text \<open>
  Twisted's \<^verbatim>\<open>ReconnectingClientFactory.clientConnectionLost\<close> and
  \<^verbatim>\<open>clientConnectionFailed\<close> schedule a new attempt when \<open>continueTrying\<close> is set.
\<close>

definition reconnecting :: "PAWSProtocolFactory \<Rightarrow> PAWSProtocolFactory" where
  "reconnecting f = (if continueTrying f then factory_emit Retry f else f)"

definition clientConnectionLost :: "PAWSProtocolFactory \<Rightarrow> PAWSProtocolFactory" where
  "clientConnectionLost f =
     reconnecting (connectionStateHandler False
       (factory_emit (FactoryLog DEBUG ''PAWS connection lost. Reason: %s'') f))"

definition clientConnectionFailed :: "PAWSProtocolFactory \<Rightarrow> PAWSProtocolFactory" where
  "clientConnectionFailed f =
     reconnecting (connectionStateHandler False
       (factory_emit (FactoryLog ERROR ''PAWS connection failed. Reason: %s'') f))"

text \<open>\<^verbatim>\<open>send\<close> is \<^verbatim>\<open>self.connection.send(data)\<close>: an attribute of \<^verbatim>\<open>None\<close> when there
  is no protocol.\<close>

definition send :: "json \<Rightarrow> PAWSProtocolFactory \<Rightarrow> py_error option \<times> PAWSProtocolFactory" where
  "send data f =
     (case connection f of
        None \<Rightarrow> (Some AttributeError, f)
      | Some proto \<Rightarrow> (None, factory_emit (Write data) f))"

subsection \<open>PAWSClient: requests, subscriptions and the message handler\<close>

type_synonym token = string

type_synonym handler = nat

datatype kind = Datastream | Environment

text \<open>
  Every public operation is an \<^verbatim>\<open>inlineCallbacks\<close> generator that yields the
  \<^verbatim>\<open>Deferred\<close> stored in \<^verbatim>\<open>pendingResponses\<close> and runs the rest of its body when that
  \<^verbatim>\<open>Deferred\<close> fires, synchronously inside \<^verbatim>\<open>callback\<close>. The entry of the table is
  therefore the suspended generator:
  \<^item> \<open>AwaitSubscribe h k\<close>: \<^verbatim>\<open>subscribe\<close>, with its handler and the data structure class
    it chose;
  \<^item> \<open>AwaitStatus\<close>: \<^verbatim>\<open>unsubscribe\<close> and the update and delete operations, which return
    \<^verbatim>\<open>_getResponseCodeStatusFromHeader(response)\<close>;
  \<^item> \<open>AwaitLocation\<close>: the create operations, which return the last path segment of
    \<^verbatim>\<open>_getLocationFromHeader(response)\<close>;
  \<^item> \<open>AwaitBody m\<close>: the list and read operations, which return
    \<^verbatim>\<open>_convertToCosmStructure(response['body'], m)\<close>.
  The generator's local \<^verbatim>\<open>token\<close> is the key its \<^verbatim>\<open>Deferred\<close> is stored under.
\<close>

datatype waiter =
    AwaitSubscribe handler kind
  | AwaitStatus
  | AwaitLocation
  | AwaitBody string

datatype 'd py_value =
    Token_Status token bool
  | Status bool
  | Ident string
  | Structure 'd

text \<open>
  The trace of the client: a \<^verbatim>\<open>logging\<close> call, \<^verbatim>\<open>pendingResponses[token].callback(data)\<close>,
  the generator that awaited a token returning a value or raising, and a call of a
  subscription handler. Handlers and the callers of the operations are taken not to call
  back into the client while they run.
\<close>

datatype 'd client_event =
    ClientLog level string
  | Callback token json
  | Finished token "py_error + 'd py_value"
  | Invoke handler 'd

text \<open>
  The functions this module calls and does not define: \<^verbatim>\<open>json.loads\<close>, the constructor
  call \<^verbatim>\<open>dataStructureClass(**body)\<close>, and the decoding done by
  \<^verbatim>\<open>_convertToCosmStructure(data, kind)\<close>.
\<close>

record 'd data_layer =
  loads :: "string \<Rightarrow> py_error + json"
  construct :: "kind \<Rightarrow> (string \<times> json) list \<Rightarrow> py_error + 'd"
  convertToCosmStructure :: "string \<Rightarrow> json \<Rightarrow> py_error + 'd"

record 'd PAWSClient =
  api_key :: "string option"
  factory :: PAWSProtocolFactory
  pendingResponses :: "token \<rightharpoonup> waiter"
  subscriptionHandlers :: "token \<rightharpoonup> handler \<times> kind"
  events :: "'d client_event list"

definition client_init :: "string option \<Rightarrow> 'd PAWSClient" where
  "client_init key =
     \<lparr>api_key = key, factory = factory_init, pendingResponses = Map.empty,
      subscriptionHandlers = Map.empty, events = []\<rparr>"

definition emit :: "'d client_event \<Rightarrow> 'd PAWSClient \<Rightarrow> 'd PAWSClient" where
  "emit e s = s\<lparr>events := events s @ [e]\<rparr>"

definition unroutable_log :: "'d client_event list" where
  "unroutable_log =
     [ClientLog ERROR
        ''Unrecognised message with token %s not in pendingResponses or subscriptionHandlers'',
      ClientLog ERROR ''pendingResponses tokens = %s'',
      ClientLog ERROR ''subscriptionHandlers tokens = %s'',
      ClientLog ERROR ''No handler to process:\<newline>%s\<newline>'']"

definition paws_getResponseCodeStatusFromHeader ::
  "json \<Rightarrow> 'd PAWSClient \<Rightarrow> (py_error + bool) \<times> 'd PAWSClient"
where
  "paws_getResponseCodeStatusFromHeader response s =
     (case getitem response ''status'' of
        Inl e \<Rightarrow> (Inl e, s)
      | Inr responseCode \<Rightarrow>
          (let success = (responseCode = JNumber 200) in
           (Inr success,
            if \<not> success
            then emit (ClientLog ERROR ''Expected status response code 200, received %s'') s
            else s)))"

definition paws_getLocationFromHeader ::
  "json \<Rightarrow> 'd PAWSClient \<Rightarrow> (py_error + json) \<times> 'd PAWSClient"
where
  "paws_getLocationFromHeader response s =
     (case getitem response ''status'' of
        Inl e \<Rightarrow> (Inl e, s)
      | Inr status \<Rightarrow>
          if status = JNumber 201 then
            (case getitem response ''headers'' of
               Inl e \<Rightarrow> (Inl e, s)
             | Inr hs \<Rightarrow>
                 (case py_in ''LOCATION'' hs of
                    Inl e \<Rightarrow> (Inl e, s)
                  | Inr True \<Rightarrow>
                      (case getitem hs ''LOCATION'' of
                         Inl e \<Rightarrow> (Inl e, s)
                       | Inr location \<Rightarrow> (Inr location, s))
                  | Inr False \<Rightarrow>
                      (Inl (Exception ''No response header 'Location' field found''),
                       emit (ClientLog ERROR ''No response header 'Location' field found'') s)))
          else
            (Inl (Exception ''Unexpected response. Expected 201 but got => %s''),
             emit (ClientLog ERROR ''Unexpected response. Expected 201 but got => %s'') s))"

text \<open>
  \<^verbatim>\<open>_sendRequest\<close>. \<open>fresh\<close> is what \<^verbatim>\<open>_generateToken\<close> would return; \<open>w\<close> is the
  generator that yields the returned \<^verbatim>\<open>Deferred\<close>. The result is the exception raised,
  or \<open>Some token\<close> for the \<^verbatim>\<open>Deferred\<close> stored under that token, or \<open>None\<close> for
  Python's \<^verbatim>\<open>None\<close>. The bytes written are the envelope before \<^verbatim>\<open>json.dumps\<close>.
\<close>

definition envelope ::
  "string option \<Rightarrow> string \<Rightarrow> string \<Rightarrow> (string \<times> json) list option \<Rightarrow> string option
     \<Rightarrow> token \<Rightarrow> json"
where
  "envelope key method resource parameters body tok =
     JObject
       ([(''method'', JString method),
         (''resource'', JString resource),
         (''headers'',
            JObject [(''X-ApiKey'', case key of None \<Rightarrow> JNull | Some k \<Rightarrow> JString k)])]
        @ (case parameters of Some (p # ps) \<Rightarrow> [(''parameters'', JObject (p # ps))] | _ \<Rightarrow> [])
        @ (case body of Some (c # cs) \<Rightarrow> [(''body'', JString (c # cs))] | _ \<Rightarrow> [])
        @ [(''token'', JString tok)])"

definition sendRequest ::
  "waiter \<Rightarrow> string \<Rightarrow> string \<Rightarrow> (string \<times> json) list option \<Rightarrow> string option
     \<Rightarrow> token option \<Rightarrow> token \<Rightarrow> 'd PAWSClient
     \<Rightarrow> (py_error + token option) \<times> 'd PAWSClient"
where
  "sendRequest w method resource parameters body token fresh s =
     (let tok = (case token of None \<Rightarrow> fresh | Some t \<Rightarrow> t);
          message = envelope (api_key s) method resource parameters body tok;
          s1 = emit (ClientLog DEBUG ''About to send:\<newline>%s\<newline>'') s
      in if connected (factory s1) then
           (case send message (factory s1) of
              (Some e, f') \<Rightarrow> (Inl e, s1\<lparr>factory := f'\<rparr>)
            | (None, f') \<Rightarrow>
                (Inr (Some tok),
                 s1\<lparr>factory := f', pendingResponses := (pendingResponses s1)(tok \<mapsto> w)\<rparr>))
         else
           (Inr None, emit (ClientLog ERROR ''Send failed, no connection exists'') s1))"

text \<open>
  The rest of each generator after its \<^verbatim>\<open>yield\<close>, given the response. For
  \<^verbatim>\<open>subscribe\<close> that is: compute the status, store the handler, return the pair.
\<close>

definition continue ::
  "'d data_layer \<Rightarrow> waiter \<Rightarrow> token \<Rightarrow> json \<Rightarrow> 'd PAWSClient
     \<Rightarrow> (py_error + 'd py_value) \<times> 'd PAWSClient"
where
  "continue L w token response s =
     (case w of
        AwaitSubscribe subscriptionHandler dataStructureClass \<Rightarrow>
          (case paws_getResponseCodeStatusFromHeader response s of
             (Inl e, s1) \<Rightarrow> (Inl e, s1)
           | (Inr response_code, s1) \<Rightarrow>
               (Inr (Token_Status token response_code),
                s1\<lparr>subscriptionHandlers :=
                     (subscriptionHandlers s1)
                       (token \<mapsto> (subscriptionHandler, dataStructureClass))\<rparr>))
      | AwaitStatus \<Rightarrow>
          (case paws_getResponseCodeStatusFromHeader response s of
             (Inl e, s1) \<Rightarrow> (Inl e, s1)
           | (Inr status_code, s1) \<Rightarrow> (Inr (Status status_code), s1))
      | AwaitLocation \<Rightarrow>
          (case paws_getLocationFromHeader response s of
             (Inl e, s1) \<Rightarrow> (Inl e, s1)
           | (Inr (JString location), s1) \<Rightarrow>
               (Inr (Ident (last (split_str (CHR ''/'') location))), s1)
           | (Inr _, s1) \<Rightarrow> (Inl AttributeError, s1))
      | AwaitBody m \<Rightarrow>
          (case getitem response ''body'' of
             Inl e \<Rightarrow> (Inl e, s)
           | Inr body \<Rightarrow>
               (case convertToCosmStructure L m body of
                  Inl e \<Rightarrow> (Inl e, s)
                | Inr dataStructure \<Rightarrow> (Inr (Structure dataStructure), s))))"

text \<open>\<^verbatim>\<open>pendingResponses[token].callback(data)\<close>: the generator runs to its end.\<close>

definition callback :: "'d data_layer \<Rightarrow> waiter \<Rightarrow> token \<Rightarrow> json \<Rightarrow> 'd PAWSClient \<Rightarrow> 'd PAWSClient" where
  "callback L w token data s =
     (case continue L w token data (emit (Callback token data) s) of
        (r, s1) \<Rightarrow> emit (Finished token r) s1)"

definition messageHandler ::
  "'d data_layer \<Rightarrow> string \<Rightarrow> 'd PAWSClient \<Rightarrow> py_error option \<times> 'd PAWSClient"
where
  "messageHandler L msg s =
     (let s1 = emit (ClientLog DEBUG ''PAWSClient has received a message:\<newline>%s\<newline>'') s in
      case loads L msg of
        Inl e \<Rightarrow> (Some e, s1)
      | Inr data \<Rightarrow>
          (case getitem data ''token'' of
             Inl e \<Rightarrow> (Some e, s1)
           | Inr token \<Rightarrow>
               (case dict_key token of
                  Inl e \<Rightarrow> (Some e, s1)
                | Inr None \<Rightarrow> (None, s1\<lparr>events := events s1 @ unroutable_log\<rparr>)
                | Inr (Some t) \<Rightarrow>
                    (case pendingResponses s1 t of
                       Some w \<Rightarrow>
                         (let s2 = callback L w t data s1 in
                          (None, s2\<lparr>pendingResponses := (pendingResponses s2)(t := None)\<rparr>))
                     | None \<Rightarrow>
                         (case subscriptionHandlers s1 t of
                            Some (handler, dataStructureClass) \<Rightarrow>
                              (case getitem data ''body'' of
                                 Inl e \<Rightarrow> (Some e, s1)
                               | Inr (JObject body) \<Rightarrow>
                                   (case construct L dataStructureClass body of
                                      Inl e \<Rightarrow> (Some e, s1)
                                    | Inr dataStructure \<Rightarrow>
                                        (None, emit (Invoke handler dataStructure) s1))
                               | Inr _ \<Rightarrow> (Some TypeError, s1))
                          | None \<Rightarrow>
                              (None, s1\<lparr>events := events s1 @ unroutable_log\<rparr>))))))"

text \<open>
  An operation up to the point where it is first suspended: it sends the request and
  yields the \<^verbatim>\<open>Deferred\<close>. When \<^verbatim>\<open>_sendRequest\<close> returns \<^verbatim>\<open>None\<close> the generator is
  resumed at once with \<^verbatim>\<open>None\<close> as the response.
\<close>

datatype 'd outcome = Suspended token | Done "py_error + 'd py_value"

definition yield_request ::
  "'d data_layer \<Rightarrow> waiter \<Rightarrow> string \<Rightarrow> string \<Rightarrow> string option \<Rightarrow> token option \<Rightarrow> token
     \<Rightarrow> 'd PAWSClient \<Rightarrow> 'd outcome \<times> 'd PAWSClient"
where
  "yield_request L w method resource body token fresh s =
     (case sendRequest w method resource None body token fresh s of
        (Inl e, s1) \<Rightarrow> (Done (Inl e), s1)
      | (Inr (Some t), s1) \<Rightarrow> (Suspended t, s1)
      | (Inr None, s1) \<Rightarrow>
          (case continue L w (case token of None \<Rightarrow> fresh | Some t \<Rightarrow> t) JNull s1 of
             (r, s2) \<Rightarrow> (Done r, s2)))"

definition subscribe ::
  "'d data_layer \<Rightarrow> string \<Rightarrow> handler \<Rightarrow> token \<Rightarrow> 'd PAWSClient \<Rightarrow> 'd outcome \<times> 'd PAWSClient"
where
  "subscribe L resource subscriptionHandler fresh s =
     (let dataStructureClass =
            (if contains ''datastreams'' resource then Datastream else Environment)
      in yield_request L (AwaitSubscribe subscriptionHandler dataStructureClass)
           ''subscribe'' resource None (Some fresh) fresh s)"

definition unsubscribe ::
  "'d data_layer \<Rightarrow> string \<Rightarrow> token \<Rightarrow> token \<Rightarrow> 'd PAWSClient \<Rightarrow> 'd outcome \<times> 'd PAWSClient"
where
  "unsubscribe L resource token fresh s =
     (let s1 = (if token \<in> dom (subscriptionHandlers s)
                then s\<lparr>subscriptionHandlers := (subscriptionHandlers s)(token := None)\<rparr>
                else s)
      in yield_request L AwaitStatus ''unsubscribe'' resource None (Some token) fresh s1)"

definition create_feed ::
  "'d data_layer \<Rightarrow> string option \<Rightarrow> token \<Rightarrow> 'd PAWSClient \<Rightarrow> 'd outcome \<times> 'd PAWSClient"
where
  "create_feed L data fresh s = yield_request L AwaitLocation ''post'' ''/feeds'' data None fresh s"

definition read_feed ::
  "'d data_layer \<Rightarrow> string \<Rightarrow> token \<Rightarrow> 'd PAWSClient \<Rightarrow> 'd outcome \<times> 'd PAWSClient"
where
  "read_feed L feed_id fresh s =
     yield_request L (AwaitBody ''feed'') ''get'' (''/feeds/'' @ feed_id) None None fresh s"

definition update_feed ::
  "'d data_layer \<Rightarrow> string \<Rightarrow> string option \<Rightarrow> token \<Rightarrow> 'd PAWSClient
     \<Rightarrow> 'd outcome \<times> 'd PAWSClient"
where
  "update_feed L feed_id data fresh s =
     yield_request L AwaitStatus ''put'' (''/feeds/'' @ feed_id) data None fresh s"

definition delete_feed ::
  "'d data_layer \<Rightarrow> string \<Rightarrow> token \<Rightarrow> 'd PAWSClient \<Rightarrow> 'd outcome \<times> 'd PAWSClient"
where
  "delete_feed L feed_id fresh s =
     yield_request L AwaitStatus ''delete'' (''/feeds/'' @ feed_id) None None fresh s"

definition list_feeds ::
  "'d data_layer \<Rightarrow> token \<Rightarrow> 'd PAWSClient \<Rightarrow> 'd outcome \<times> 'd PAWSClient"
where
  "list_feeds L fresh s =
     yield_request L (AwaitBody ''feeds_list'') ''get'' ''/feeds'' None None fresh s"

definition create_datastream ::
  "'d data_layer \<Rightarrow> string \<Rightarrow> string \<Rightarrow> string option \<Rightarrow> token \<Rightarrow> 'd PAWSClient
     \<Rightarrow> 'd outcome \<times> 'd PAWSClient"
where
  "create_datastream L feed_id datastream_id data fresh s =
     yield_request L AwaitLocation ''post''
       (''/feeds/'' @ feed_id @ ''/datastreams/'' @ datastream_id) data None fresh s"

definition read_datastream ::
  "'d data_layer \<Rightarrow> string \<Rightarrow> string \<Rightarrow> token \<Rightarrow> 'd PAWSClient \<Rightarrow> 'd outcome \<times> 'd PAWSClient"
where
  "read_datastream L feed_id datastream_id fresh s =
     yield_request L (AwaitBody ''datastream'') ''get''
       (''/feeds/'' @ feed_id @ ''/datastreams/'' @ datastream_id) None None fresh s"

definition update_datastream ::
  "'d data_layer \<Rightarrow> string \<Rightarrow> string \<Rightarrow> string option \<Rightarrow> token \<Rightarrow> 'd PAWSClient
     \<Rightarrow> 'd outcome \<times> 'd PAWSClient"
where
  "update_datastream L feed_id datastream_id data fresh s =
     yield_request L AwaitStatus ''put''
       (''/feeds/'' @ feed_id @ ''/datastreams/'' @ datastream_id) data None fresh s"

definition delete_datastream ::
  "'d data_layer \<Rightarrow> string \<Rightarrow> string \<Rightarrow> token \<Rightarrow> 'd PAWSClient \<Rightarrow> 'd outcome \<times> 'd PAWSClient"
where
  "delete_datastream L feed_id datastream_id fresh s =
     yield_request L AwaitStatus ''delete''
       (''/feeds/'' @ feed_id @ ''/datastreams/'' @ datastream_id) None None fresh s"

text \<open>
  The public operations of \<^verbatim>\<open>PAWSClient\<close> with their arguments, what each does when it
  is called (\<open>paws_start\<close>), the token it then waits under, and the rest of its body
  (\<open>awaits\<close>).
\<close>

datatype paws_operation =
    PAWS_list_feeds
  | PAWS_create_feed "string option"
  | PAWS_read_feed string
  | PAWS_update_feed string "string option"
  | PAWS_delete_feed string
  | PAWS_create_datastream string string "string option"
  | PAWS_read_datastream string string
  | PAWS_update_datastream string string "string option"
  | PAWS_delete_datastream string string
  | PAWS_subscribe string handler
  | PAWS_unsubscribe string token

fun paws_start ::
  "'d data_layer \<Rightarrow> paws_operation \<Rightarrow> token \<Rightarrow> 'd PAWSClient \<Rightarrow> 'd outcome \<times> 'd PAWSClient"
where
  "paws_start L PAWS_list_feeds fresh s = list_feeds L fresh s"
| "paws_start L (PAWS_create_feed data) fresh s = create_feed L data fresh s"
| "paws_start L (PAWS_read_feed feed_id) fresh s = read_feed L feed_id fresh s"
| "paws_start L (PAWS_update_feed feed_id data) fresh s = update_feed L feed_id data fresh s"
| "paws_start L (PAWS_delete_feed feed_id) fresh s = delete_feed L feed_id fresh s"
| "paws_start L (PAWS_create_datastream feed_id datastream_id data) fresh s =
     create_datastream L feed_id datastream_id data fresh s"
| "paws_start L (PAWS_read_datastream feed_id datastream_id) fresh s =
     read_datastream L feed_id datastream_id fresh s"
| "paws_start L (PAWS_update_datastream feed_id datastream_id data) fresh s =
     update_datastream L feed_id datastream_id data fresh s"
| "paws_start L (PAWS_delete_datastream feed_id datastream_id) fresh s =
     delete_datastream L feed_id datastream_id fresh s"
| "paws_start L (PAWS_subscribe resource subscriptionHandler) fresh s =
     subscribe L resource subscriptionHandler fresh s"
| "paws_start L (PAWS_unsubscribe resource token) fresh s = unsubscribe L resource token fresh s"

fun awaited_token :: "paws_operation \<Rightarrow> token \<Rightarrow> token" where
  "awaited_token (PAWS_unsubscribe resource token) fresh = token"
| "awaited_token _ fresh = fresh"

fun awaits :: "paws_operation \<Rightarrow> waiter" where
  "awaits PAWS_list_feeds = AwaitBody ''feeds_list''"
| "awaits (PAWS_create_feed data) = AwaitLocation"
| "awaits (PAWS_read_feed feed_id) = AwaitBody ''feed''"
| "awaits (PAWS_update_feed feed_id data) = AwaitStatus"
| "awaits (PAWS_delete_feed feed_id) = AwaitStatus"
| "awaits (PAWS_create_datastream feed_id datastream_id data) = AwaitLocation"
| "awaits (PAWS_read_datastream feed_id datastream_id) = AwaitBody ''datastream''"
| "awaits (PAWS_update_datastream feed_id datastream_id data) = AwaitStatus"
| "awaits (PAWS_delete_datastream feed_id datastream_id) = AwaitStatus"
| "awaits (PAWS_subscribe resource subscriptionHandler) =
     AwaitSubscribe subscriptionHandler
       (if contains ''datastreams'' resource then Datastream else Environment)"
| "awaits (PAWS_unsubscribe resource token) = AwaitStatus"

subsection \<open>PAWSClient: observations and reachable states\<close>

text \<open>What the trace shows: the handler calls, the pending requests resolved, and how many
  messages were reported as unrecognised.\<close>

fun invocations :: "'d client_event list \<Rightarrow> (handler \<times> 'd) list" where
  "invocations [] = []"
| "invocations (Invoke h d # es) = (h, d) # invocations es"
| "invocations (_ # es) = invocations es"

fun resolutions :: "'d client_event list \<Rightarrow> (token \<times> json) list" where
  "resolutions [] = []"
| "resolutions (Callback t data # es) = (t, data) # resolutions es"
| "resolutions (_ # es) = resolutions es"

fun unroutable_count :: "'d client_event list \<Rightarrow> nat" where
  "unroutable_count [] = 0"
| "unroutable_count (ClientLog lv m # es) =
     (if lv = ERROR \<and>
         m = ''Unrecognised message with token %s not in pendingResponses or subscriptionHandlers''
      then Suc (unroutable_count es) else unroutable_count es)"
| "unroutable_count (_ # es) = unroutable_count es"

text \<open>
  The states of a client: it starts with empty tables; the transport changes under it; an
  operation is started, with a token that \<^verbatim>\<open>_generateToken\<close> (a \<^verbatim>\<open>uuid1\<close>) has not
  handed out before; a message arrives.
\<close>

inductive reachable :: "'d data_layer \<Rightarrow> 'd PAWSClient \<Rightarrow> bool" for L :: "'d data_layer" where
  init: "reachable L (client_init key)"
| transport: "reachable L s \<Longrightarrow> reachable L (s\<lparr>factory := f\<rparr>)"
| request:
    "reachable L s \<Longrightarrow> fresh \<notin> dom (pendingResponses s) \<union> dom (subscriptionHandlers s)
       \<Longrightarrow> w = AwaitStatus \<or> w = AwaitLocation \<or> w = AwaitBody m
       \<Longrightarrow> reachable L (snd (yield_request L w method resource body None fresh s))"
| subscribing:
    "reachable L s \<Longrightarrow> fresh \<notin> dom (pendingResponses s) \<union> dom (subscriptionHandlers s)
       \<Longrightarrow> reachable L (snd (subscribe L resource h fresh s))"
| unsubscribing:
    "reachable L s \<Longrightarrow> reachable L (snd (unsubscribe L resource token fresh s))"
| message:
    "reachable L s \<Longrightarrow> reachable L (snd (messageHandler L msg s))"

subsection \<open>PAWSClient: sample inputs\<close>

text \<open>
  A data layer for the examples: \<open>loads\<close> knows the parse of five messages and rejects
  every other text; the decoded structure is the class with the fields it was given.
\<close>

definition sample_messages :: "(string \<times> json) list" where
  \<open>sample_messages =
     [(''{"token":"t1","status":200}'',
         JObject [(''token'', JString ''t1''), (''status'', JNumber 200)]),
      (''{"token":"t1","status":404}'',
         JObject [(''token'', JString ''t1''), (''status'', JNumber 404)]),
      (''{"token":"t1","body":{"id":"5"}}'',
         JObject [(''token'', JString ''t1''), (''body'', JObject [(''id'', JString ''5'')])]),
      (''{"token":"t9","body":{"id":"5"}}'',
         JObject [(''token'', JString ''t9''), (''body'', JObject [(''id'', JString ''5'')])]),
      (''{"token":"t2","status":404,"headers":{}}'',
         JObject [(''token'', JString ''t2''), (''status'', JNumber 404),
                  (''headers'', JObject [])])]\<close>

definition sample_layer :: "(kind \<times> (string \<times> json) list) data_layer" where
  "sample_layer =
     \<lparr>loads = (\<lambda>msg. case map_of sample_messages msg of
                        None \<Rightarrow> Inl ValueError
                      | Some data \<Rightarrow> Inr data),
      construct = (\<lambda>k body. Inr (k, body)),
      convertToCosmStructure =
        (\<lambda>m body. case body of JObject kvs \<Rightarrow> Inr (Environment, kvs) | _ \<Rightarrow> Inl ValueError)\<rparr>"

text \<open>A client whose connection has been made: \<^verbatim>\<open>connect\<close>, then Twisted's
  \<^verbatim>\<open>buildProtocol\<close> and \<^verbatim>\<open>connectionMade\<close>.\<close>

definition connected_factory :: PAWSProtocolFactory where
  "connected_factory = connectionMade 0 (buildProtocol (snd (connect factory_init)))"

definition connected_client :: "string option \<Rightarrow> 'd PAWSClient" where
  "connected_client key = (client_init key)\<lparr>factory := connected_factory\<rparr>"

text \<open>The sample client after \<^verbatim>\<open>subscribe\<close>, after the acknowledgement, and a client
  that has sent a \<^verbatim>\<open>create_feed\<close>.\<close>

definition awaiting_client :: "(kind \<times> (string \<times> json) list) PAWSClient" where
  "awaiting_client =
     snd (subscribe sample_layer ''/feeds/1/datastreams/2'' 7 ''t1''
            (connected_client (Some ''key'')))"

definition subscribed_client :: "(kind \<times> (string \<times> json) list) PAWSClient" where
  \<open>subscribed_client =
     snd (messageHandler sample_layer ''{"token":"t1","status":200}'' awaiting_client)\<close>

definition creating_client :: "(kind \<times> (string \<times> json) list) PAWSClient" where
  \<open>creating_client =
     snd (create_feed sample_layer (Some ''{"title":"demo"}'') ''t2''
            (connected_client (Some ''key'')))\<close>

subsection \<open>HTTPClient: the three tables of a request in flight\<close>

type_synonym request_id = string

text \<open>
  The objects made for a request, named by the request's identifier: the \<^verbatim>\<open>Deferred\<close>
  of \<^verbatim>\<open>agent.request\<close>, the \<^verbatim>\<open>DelayedCall\<close> of \<^verbatim>\<open>reactor.callLater\<close>, and the
  \<^verbatim>\<open>Deferred\<close> handed to the caller.
\<close>

datatype handle =
    RequestDeferred request_id
  | DelayedCall request_id
  | ResponseDeferred request_id

text \<open>
  A response as \<^verbatim>\<open>twisted.web\<close> presents it. \<open>headers\<close> is the sequence of header
  lines received, each a name with its values. Twisted's \<^verbatim>\<open>Headers\<close> files every line
  under the lower-cased name and appends the values of a repeated name, so
  \<^verbatim>\<open>getRawHeaders(n)\<close> is the values of all lines whose name equals \<open>n\<close> without
  regard to case, or \<^verbatim>\<open>None\<close> when there is no such line, and \<^verbatim>\<open>hasHeader(n)\<close> says
  whether there is one.
\<close>

record http_response =
  code :: int
  phrase :: string
  headers :: "(string \<times> string list) list"

definition getRawHeaders :: "string \<Rightarrow> (string \<times> string list) list \<Rightarrow> string list option" where
  "getRawHeaders name hs =
     (case filter (\<lambda>(n, vs). lower n = lower name) hs of
        [] \<Rightarrow> None
      | line # lines \<Rightarrow> Some (concat (map snd (line # lines))))"

definition hasHeader :: "string \<Rightarrow> (string \<times> string list) list \<Rightarrow> bool" where
  "hasHeader name hs = (filter (\<lambda>(n, vs). lower n = lower name) hs \<noteq> [])"

text \<open>What the caller's \<^verbatim>\<open>Deferred\<close> fires with: \<^verbatim>\<open>None\<close>, or the pair of the response
  and its body.\<close>

type_synonym http_result = "(http_response \<times> string) option"

datatype http_event =
    HttpLog level string
  | AgentRequest string string
  | AddCallback handle
  | AddErrback handle
  | CallLater request_id
  | CancelDeferred handle
  | CancelCall handle
  | DeliverBody
  | Resolve handle http_result

record HTTPClient =
  pendingRequests :: "request_id \<rightharpoonup> handle"
  httpPendingResponses :: "request_id \<rightharpoonup> handle"
  pendingTimeouts :: "request_id \<rightharpoonup> handle"
  http_events :: "http_event list"

definition http_init :: HTTPClient where
  "http_init =
     \<lparr>pendingRequests = Map.empty, httpPendingResponses = Map.empty,
      pendingTimeouts = Map.empty, http_events = []\<rparr>"

definition http_emit :: "http_event \<Rightarrow> HTTPClient \<Rightarrow> HTTPClient" where
  "http_emit e s = s\<lparr>http_events := http_events s @ [e]\<rparr>"

text \<open>\<^verbatim>\<open>_sendRequest\<close>; \<open>request_id\<close> is the value of \<^verbatim>\<open>uuid.uuid4().hex\<close>.\<close>

definition http_sendRequest ::
  "string \<Rightarrow> string \<Rightarrow> request_id \<Rightarrow> HTTPClient \<Rightarrow> handle \<times> HTTPClient"
where
  "http_sendRequest method url request_id s =
     (let s1 = http_emit (HttpLog DEBUG ''method=%s, url=%s, headers=%s, bodyLength=%s'') s;
          request_d = RequestDeferred request_id;
          s2 = http_emit (AgentRequest method url) s1;
          s3 = http_emit (AddErrback request_d) (http_emit (AddCallback request_d) s2);
          s4 = s3\<lparr>pendingRequests := (pendingRequests s3)(request_id \<mapsto> request_d)\<rparr>;
          timeout = DelayedCall request_id;
          s5 = http_emit (CallLater request_id) s4;
          s6 = s5\<lparr>pendingTimeouts := (pendingTimeouts s5)(request_id \<mapsto> timeout)\<rparr>;
          response_d = ResponseDeferred request_id
      in (response_d,
          s6\<lparr>httpPendingResponses := (httpPendingResponses s6)(request_id \<mapsto> response_d)\<rparr>))"

text \<open>\<^verbatim>\<open>_handle_request_timeout\<close>, called by the reactor when the timer fires.\<close>

definition handle_request_timeout ::
  "request_id \<Rightarrow> string \<Rightarrow> HTTPClient \<Rightarrow> py_error option \<times> HTTPClient"
where
  "handle_request_timeout request_id url s =
     (let s1 = http_emit (HttpLog ERROR ''Request timeout: %s'') s in
      case pendingTimeouts s1 request_id of
        None \<Rightarrow> (Some KeyError, s1)
      | Some _ \<Rightarrow>
          (let s2 = s1\<lparr>pendingTimeouts := (pendingTimeouts s1)(request_id := None)\<rparr> in
           case pendingRequests s2 request_id of
             None \<Rightarrow> (Some KeyError, s2)
           | Some request_d \<Rightarrow>
               (let s3 = http_emit (CancelDeferred request_d)
                           (http_emit (AddErrback request_d) s2)
                in case httpPendingResponses s3 request_id of
                     None \<Rightarrow> (Some KeyError, s3)
                   | Some response_d \<Rightarrow> (None, http_emit (Resolve response_d None) s3))))"

text \<open>
  \<^verbatim>\<open>_handle_response\<close> is a generator: \<open>handle_response_begin\<close> is its body up to the
  \<^verbatim>\<open>yield\<close> of \<^verbatim>\<open>_handleResponseHeader\<close>, which waits for the body;
  \<open>handle_response_end\<close> is what runs when the body has been read:
  \<^verbatim>\<open>ResponseBodyProtocol.connectionLost\<close> logs the reason (a text of Twisted's, written
  \<^verbatim>\<open>%s\<close> here) and fires \<^verbatim>\<open>finished\<close>, which resumes the generator.
\<close>

definition handle_response_begin ::
  "http_response \<Rightarrow> request_id \<Rightarrow> string \<Rightarrow> HTTPClient \<Rightarrow> py_error option \<times> HTTPClient"
where
  "handle_response_begin response request_id url s =
     (case pendingRequests s request_id of
        None \<Rightarrow> (Some KeyError, s)
      | Some _ \<Rightarrow>
          (let s1 = s\<lparr>pendingRequests := (pendingRequests s)(request_id := None)\<rparr> in
           case pendingTimeouts s1 request_id of
             None \<Rightarrow> (Some KeyError, s1)
           | Some timeout \<Rightarrow>
               (let s2 = http_emit (CancelCall timeout) s1;
                    s3 = http_emit (HttpLog DEBUG ''Success communicating with url: %s'') s2
                in (None, http_emit DeliverBody s3))))"

definition handle_response_end ::
  "http_response \<Rightarrow> string \<Rightarrow> request_id \<Rightarrow> HTTPClient \<Rightarrow> py_error option \<times> HTTPClient"
where
  "handle_response_end response responseBody request_id s =
     (let s0 = http_emit (HttpLog DEBUG ''%s'') s in
      case httpPendingResponses s0 request_id of
        None \<Rightarrow> (Some KeyError, s0)
      | Some response_d \<Rightarrow>
          (let s1 = s0\<lparr>httpPendingResponses := (httpPendingResponses s0)(request_id := None)\<rparr>
           in (None, http_emit (Resolve response_d (Some (response, responseBody))) s1)))"

definition handle_response ::
  "http_response \<Rightarrow> string \<Rightarrow> request_id \<Rightarrow> string \<Rightarrow> HTTPClient
     \<Rightarrow> py_error option \<times> HTTPClient"
where
  "handle_response response responseBody request_id url s =
     (case handle_response_begin response request_id url s of
        (Some e, s1) \<Rightarrow> (Some e, s1)
      | (None, s1) \<Rightarrow> handle_response_end response responseBody request_id s1)"

text \<open>
  The errbacks of the request's \<^verbatim>\<open>Deferred\<close>. When \<^verbatim>\<open>agent.request\<close> fails, the
  callback \<^verbatim>\<open>_handle_response\<close> is skipped and \<^verbatim>\<open>ignore_cancelled_error\<close> runs:
  \<^verbatim>\<open>failure.trap(defer.CancelledError)\<close> returns for a cancellation and raises the
  failure again for anything else. No table is touched and the caller's \<^verbatim>\<open>Deferred\<close>
  is left waiting for the timer.
\<close>

datatype failure = CancelledError | ConnectError | ResponseFailed

definition ignore_cancelled_error :: "failure \<Rightarrow> failure option" where
  "ignore_cancelled_error failure = (if failure = CancelledError then None else Some failure)"

definition request_errback :: "failure \<Rightarrow> HTTPClient \<Rightarrow> failure option \<times> HTTPClient" where
  "request_errback failure s = (ignore_cancelled_error failure, s)"

text \<open>A client with one request in flight.\<close>

definition in_flight :: HTTPClient where
  "in_flight =
     snd (http_sendRequest ''GET'' ''https://api.cosm.com/v2/keys.json'' ''r1'' http_init)"

subsection \<open>HTTPClient: what an operation does with the result\<close>

text \<open>The functions below return the log entries they write with their result.\<close>

definition http_getResponseCodeStatusFromHeader :: "http_response \<Rightarrow> log_entry list \<times> bool" where
  "http_getResponseCodeStatusFromHeader response =
     (let success = (code response = 200) in
      (if \<not> success then [(ERROR, ''Unexpected response: %s : %s'')] else [], success))"

definition http_getLocationFromHeader ::
  "http_response \<Rightarrow> log_entry list \<times> (py_error + string)"
where
  "http_getLocationFromHeader response =
     (if code response = 201 then
        (if hasHeader ''Location'' (headers response) then
           (case getRawHeaders ''Location'' (headers response) of
              Some (location # rest) \<Rightarrow>
                (if length (location # rest) > 1
                 then [(WARNING,
                        ''Unexpected number of location items in response header: %s'')]
                 else [],
                 Inr location)
            | _ \<Rightarrow>
                ([(ERROR, ''No content in response header 'Location' field'')],
                 Inl (Exception ''No content in response header 'Location' field'')))
         else
           ([(ERROR, ''No response header 'Location' field found'')],
            Inl (Exception ''No response header 'Location' field found'')))
      else
        ([(ERROR, ''Unexpected response => %s:%s'')],
         Inl (Exception ''Unexpected response => %s:%s'')))"

text \<open>
  The body of an operation after \<^verbatim>\<open>result = yield self._get(...)\<close> and its siblings
  comes in five shapes. The operations of a shape differ in the messages they log,
  passed here as \<open>unexpected\<close> and \<open>failed\<close>, in the kind of structure they decode
  (\<open>convert\<close> is \<^verbatim>\<open>_convertToCosmStructure\<close> at the operation's format and kind) and in
  what they return when the request failed. A result of \<^verbatim>\<open>None\<close> is falsy, a pair is
  not.
\<close>

datatype 'd http_value = HNone | HBool bool | HIdent string | HBody string | HStructure 'd

definition http_create ::
  "string \<Rightarrow> string \<Rightarrow> http_result \<Rightarrow> log_entry list \<times> (py_error + 'd http_value)"
where
  "http_create unexpected failed result =
     (case result of
        Some (response, responseBody) \<Rightarrow>
          if code response = 201 then
            (case http_getLocationFromHeader response of
               (lg, Inl e) \<Rightarrow> (lg, Inl e)
             | (lg, Inr location) \<Rightarrow>
                 (lg, Inr (HIdent (last (split_str (CHR ''/'') location)))))
          else ([(ERROR, unexpected)], Inr HNone)
      | None \<Rightarrow> ([(ERROR, failed)], Inr HNone))"

definition http_read ::
  "(string \<Rightarrow> py_error + 'd) \<Rightarrow> string \<Rightarrow> string \<Rightarrow> http_result
     \<Rightarrow> log_entry list \<times> (py_error + 'd http_value)"
where
  "http_read convert unexpected failed result =
     (case result of
        Some (response, responseBody) \<Rightarrow>
          if code response = 200 then
            (case convert responseBody of
               Inl e \<Rightarrow> ([], Inl e)
             | Inr dataStructure \<Rightarrow> ([], Inr (HStructure dataStructure)))
          else ([(ERROR, unexpected)], Inr HNone)
      | None \<Rightarrow> ([(ERROR, failed)], Inr HNone))"

text \<open>\<^verbatim>\<open>read_datastream\<close> returns the body as it is when the format is \<^verbatim>\<open>png\<close>.\<close>

definition http_read_datastream ::
  "(string \<Rightarrow> py_error + 'd) \<Rightarrow> string \<Rightarrow> string \<Rightarrow> string \<Rightarrow> http_result
     \<Rightarrow> log_entry list \<times> (py_error + 'd http_value)"
where
  "http_read_datastream convert format unexpected failed result =
     (case result of
        Some (response, responseBody) \<Rightarrow>
          if code response = 200 then
            (if format = ''png'' then ([], Inr (HBody responseBody))
             else (case convert responseBody of
                     Inl e \<Rightarrow> ([], Inl e)
                   | Inr dataStructure \<Rightarrow> ([], Inr (HStructure dataStructure))))
          else ([(ERROR, unexpected)], Inr HNone)
      | None \<Rightarrow> ([(ERROR, failed)], Inr HNone))"

text \<open>\<^verbatim>\<open>read_datapoint\<close> looks for \<^verbatim>\<open>"Not found"\<close> in the body first.\<close>

definition http_read_datapoint ::
  "(string \<Rightarrow> py_error + 'd) \<Rightarrow> string \<Rightarrow> string \<Rightarrow> http_result
     \<Rightarrow> log_entry list \<times> (py_error + 'd http_value)"
where
  "http_read_datapoint convert unexpected failed result =
     (case result of
        Some (response, responseBody) \<Rightarrow>
          if code response = 200 then
            (if contains ''Not found'' responseBody
             then ([(INFO, ''The specified datapoint [%s] could not be found'')], Inr HNone)
             else (case convert responseBody of
                     Inl e \<Rightarrow> ([], Inl e)
                   | Inr dataStructure \<Rightarrow> ([], Inr (HStructure dataStructure))))
          else ([(ERROR, unexpected)], Inr HNone)
      | None \<Rightarrow> ([(ERROR, failed)], Inr HNone))"

text \<open>The operations that return \<^verbatim>\<open>_getResponseCodeStatusFromHeader(response)\<close>;
  \<open>on_failure\<close> is what they return when the request failed.\<close>

definition http_status ::
  "string \<Rightarrow> 'd http_value \<Rightarrow> http_result \<Rightarrow> log_entry list \<times> (py_error + 'd http_value)"
where
  "http_status failed on_failure result =
     (case result of
        Some (response, responseBody) \<Rightarrow>
          (case http_getResponseCodeStatusFromHeader response of
             (lg, success) \<Rightarrow> (lg, Inr (HBool success)))
      | None \<Rightarrow> ([(ERROR, failed)], Inr on_failure))"

text \<open>
  The public operations of \<^verbatim>\<open>HTTPClient\<close>, in the order of the source, and the body
  of each after its \<^verbatim>\<open>yield\<close>. \<open>convert\<close> is \<^verbatim>\<open>_convertToCosmStructure\<close>, taking the
  body, the format and the kind; \<open>format\<close> is the operation's format argument.
\<close>

datatype http_operation =
    HTTP_list_feeds | HTTP_create_feed | HTTP_read_feed | HTTP_update_feed | HTTP_delete_feed
  | HTTP_create_datastream | HTTP_read_datastream | HTTP_update_datastream
  | HTTP_delete_datastream
  | HTTP_create_datapoints | HTTP_read_datapoint | HTTP_update_datapoint
  | HTTP_delete_datapoint | HTTP_delete_datapoints
  | HTTP_list_triggers | HTTP_create_trigger | HTTP_read_trigger | HTTP_update_trigger
  | HTTP_delete_trigger
  | HTTP_list_users | HTTP_create_user | HTTP_read_user | HTTP_update_user | HTTP_delete_user
  | HTTP_list_api_keys | HTTP_create_api_key | HTTP_read_api_key | HTTP_delete_api_key

fun http_after_yield ::
  "(string \<Rightarrow> string \<Rightarrow> string \<Rightarrow> py_error + 'd) \<Rightarrow> string \<Rightarrow> http_operation \<Rightarrow> http_result
     \<Rightarrow> log_entry list \<times> (py_error + 'd http_value)"
where
  "http_after_yield convert format HTTP_list_feeds result =
     http_read (\<lambda>body. convert body format ''feeds_list'')
       ''Problem retrieving feed list. Expected response code 200 got %s''
       ''Problem retrieving feed list. Request failed'' result"
| "http_after_yield convert format HTTP_create_feed result =
     http_create ''Problem creating feed. Expected response code 201 got %s''
       ''Problem creating new feed. Request failed'' result"
| "http_after_yield convert format HTTP_read_feed result =
     http_read (\<lambda>body. convert body format ''feed'')
       ''Problem reading feed. Expected response code 200 got %s''
       ''Problem reading feed. Request failed'' result"
| "http_after_yield convert format HTTP_update_feed result =
     http_status ''Problem updating feed. Request failed'' (HBool False) result"
| "http_after_yield convert format HTTP_delete_feed result =
     http_status ''Problem deleting feed. Request failed'' (HBool False) result"
| "http_after_yield convert format HTTP_create_datastream result =
     http_create ''Problem creating datastream. Expected response code 201 got %s''
       ''Problem creating datastream. Request failed'' result"
| "http_after_yield convert format HTTP_read_datastream result =
     http_read_datastream (\<lambda>body. convert body format ''datastream'') format
       ''Problem reading datastream. Expected response code 200 got %s''
       ''Problem reading datastream. Request failed'' result"
| "http_after_yield convert format HTTP_update_datastream result =
     http_status ''Problem updating datastream. Request failed'' (HBool False) result"
| "http_after_yield convert format HTTP_delete_datastream result =
     http_status ''Problem deleting datastream. Request failed'' (HBool False) result"
| "http_after_yield convert format HTTP_create_datapoints result =
     http_status ''Problem creating datapoints. Request failed'' HNone result"
| "http_after_yield convert format HTTP_read_datapoint result =
     http_read_datapoint (\<lambda>body. convert body format ''datapoint'')
       ''Problem reading datapoint. Expected response code 200 got %s''
       ''Problem reading datapoint. Request failed'' result"
| "http_after_yield convert format HTTP_update_datapoint result =
     http_status ''Problem updating datapoint. Request failed'' HNone result"
| "http_after_yield convert format HTTP_delete_datapoint result =
     http_status ''Problem deleting datapoint. Request failed'' HNone result"
| "http_after_yield convert format HTTP_delete_datapoints result =
     http_status ''Problem deleting datapoints. Request failed'' HNone result"
| "http_after_yield convert format HTTP_list_triggers result =
     http_read (\<lambda>body. convert body format ''triggers_list'')
       ''Problem listing triggers. Expected response code 200 got %s''
       ''Problem listing triggers. Request failed'' result"
| "http_after_yield convert format HTTP_create_trigger result =
     http_create ''Problem creating trigger. Expected response code 201 got %s''
       ''Problem creating trigger. Request failed'' result"
| "http_after_yield convert format HTTP_read_trigger result =
     http_read (\<lambda>body. convert body format ''trigger'')
       ''Problem reading trigger. Expected response code 200 got %s''
       ''Problem reading trigger. Request failed'' result"
| "http_after_yield convert format HTTP_update_trigger result =
     http_status ''Problem updating trigger. Request failed'' HNone result"
| "http_after_yield convert format HTTP_delete_trigger result =
     http_status ''Problem deleting trigger. Request failed'' HNone result"
| "http_after_yield convert format HTTP_list_users result =
     http_read (\<lambda>body. convert body format ''users_list'')
       ''Problem listing users. Expected response code 200 got %s''
       ''Problem listing users. Request failed'' result"
| "http_after_yield convert format HTTP_create_user result =
     http_create ''Problem creating user. Expected response code 201 got %s''
       ''Problem creating user. Request failed'' result"
| "http_after_yield convert format HTTP_read_user result =
     http_read (\<lambda>body. convert body format ''user'')
       ''Problem reading user. Expected response code 200 got %s''
       ''Problem reading user. Request failed'' result"
| "http_after_yield convert format HTTP_update_user result =
     http_status ''Problem updating user. Request failed'' HNone result"
| "http_after_yield convert format HTTP_delete_user result =
     http_status ''Problem deleting user. Request failed'' HNone result"
| "http_after_yield convert format HTTP_list_api_keys result =
     http_read (\<lambda>body. convert body format ''keys_list'')
       ''Problem reading API keys. Expected response code 200 got %s''
       ''Problem listing API keys. Request failed'' result"
| "http_after_yield convert format HTTP_create_api_key result =
     http_create ''Problem creating API key. Expected response code 201 got %s''
       ''Problem creating API key. Request failed'' result"
| "http_after_yield convert format HTTP_read_api_key result =
     http_read (\<lambda>body. convert body format ''key'')
       ''Problem reading API key. Expected response code 200 got %s''
       ''Problem listing API key. Request failed'' result"
| "http_after_yield convert format HTTP_delete_api_key result =
     http_status ''Problem deleting API key. Request failed'' HNone result"

text \<open>The status code an operation takes as success: 201 for the five operations that
  read the \<^verbatim>\<open>Location\<close> header, 200 for the others.\<close>

definition reads_location :: "http_operation \<Rightarrow> bool" where
  "reads_location op =
     (op \<in> {HTTP_create_feed, HTTP_create_datastream, HTTP_create_trigger, HTTP_create_user,
             HTTP_create_api_key})"

definition expected_code :: "http_operation \<Rightarrow> int" where
  "expected_code op = (if reads_location op then 201 else 200)"

text \<open>A stand-in for \<^verbatim>\<open>_convertToCosmStructure\<close> in the examples.\<close>

definition sample_convert ::
  "string \<Rightarrow> string \<Rightarrow> string \<Rightarrow> py_error + kind \<times> (string \<times> json) list"
where
  "sample_convert body format k = Inr (Environment, [])"

section \<open>Lemmas and theorems\<close>

subsection \<open>Framing\<close>

lemma split_str_nonempty: "split_str d s \<noteq> []"
  by (induction s) (auto split: list.splits)

lemma join_split_str: "join d (split_str d s) = s"
proof (induction s)
  case Nil
  show ?case by simp
next
  case (Cons c cs)
  obtain w ws where eq: "split_str d cs = w # ws"
    using split_str_nonempty [of d cs] by (cases "split_str d cs") auto
  with Cons show ?case by auto
qed

lemma split_str_no_delimiter: "w \<in> set (split_str d s) \<Longrightarrow> d \<notin> set w"
  by (induction s arbitrary: w) (auto split: list.splits if_splits)

lemma split_str_plain: "d \<notin> set w \<Longrightarrow> split_str d w = [w]"
  by (induction w) auto

lemma split_str_segment: "d \<notin> set w \<Longrightarrow> split_str d (w @ d # s) = w # split_str d s"
  by (induction w) auto

lemma split_str_join:
  "ws \<noteq> [] \<Longrightarrow> \<forall>w\<in>set ws. d \<notin> set w \<Longrightarrow> split_str d (join d ws) = ws"
proof (induction ws)
  case Nil
  then show ?case by simp
next
  case (Cons w ws)
  show ?case
  proof (cases ws)
    case Nil
    with Cons.prems show ?thesis by (simp add: split_str_plain)
  next
    case (Cons v vs)
    have "join d (w # ws) = w @ d # join d ws"
      using Cons by simp
    moreover have "split_str d (join d ws) = ws"
      using Cons.IH Cons.prems Cons by simp
    ultimately show ?thesis
      using Cons.prems by (simp add: split_str_segment del: join.simps)
  qed
qed

lemma deliver_no_raise:
  "(\<And>m c. fst (h m c) = None) \<Longrightarrow>
     deliver h ms c = (None, foldl (\<lambda>c m. snd (h m c)) c ms)"
proof (induction ms arbitrary: c)
  case Nil
  show ?case by simp
next
  case (Cons m ms)
  obtain c' where "h m c = (None, c')"
    using Cons.prems [of m c] by (cases "h m c") auto
  with Cons show ?case by simp
qed



lemma framing_example:
  \<open>dataReceived record_message \<lparr>buffer = [], receiver = [], protocol_log = []\<rparr>
      ''{"a":1}\<newline>{"b":2}\<newline>{"c"''
    = (None, \<lparr>buffer = ''{"c"'', receiver = [''{"a":1}'', ''{"b":2}''], protocol_log = []\<rparr>)\<close>
  unfolding dataReceived_def delimiter_def
  by (simp add: record_message_def Let_def)

lemma dataReceived_no_raise:
  assumes "\<And>m c. fst (h m c) = None"
  shows "dataReceived h p data =
           (None,
            p\<lparr>buffer := last (split_str delimiter (buffer p @ data)),
              receiver := foldl (\<lambda>c m. snd (h m c)) (receiver p)
                            (butlast (split_str delimiter (buffer p @ data))),
              protocol_log :=
                (if delimiter \<in> set (buffer p @ data) then protocol_log p
                 else protocol_log p @ [(DEBUG, ''No message delimiter found yet.'')])\<rparr>)"
proof (cases "delimiter \<in> set (buffer p @ data)")
  case True
  then show ?thesis
    by (simp add: dataReceived_def Let_def deliver_no_raise [of h, OF assms])
next
  case False
  then have "split_str delimiter (buffer p @ data) = [buffer p @ data]"
    by (rule split_str_plain)
  with False show ?thesis
    by (simp add: dataReceived_def Let_def)
qed

text \<open>
  Claim C5. A chunk is appended to the buffer; the text is cut at every delimiter; every
  segment but the last is handed to the message callback, in order, one call each; the
  last segment is the new buffer. The segments are the delimiter-free pieces whose join is
  the buffered text, and the only such pieces. The statement is for a callback that
  returns normally. Feeding the
  three-part example into an empty buffer hands over its first two parts and keeps the
  third.
\<close>

theorem C5_dataReceived_frames_messages:
  assumes "\<And>m c. fst (h m c) = None"
  shows \<open>(let segments = split_str delimiter (buffer p @ data);
              (raised, p') = dataReceived h p data
          in raised = None
             \<and> join delimiter segments = buffer p @ data
             \<and> (\<forall>w \<in> set segments. delimiter \<notin> set w)
             \<and> (\<forall>ws. ws \<noteq> [] \<and> (\<forall>w \<in> set ws. delimiter \<notin> set w)
                      \<and> join delimiter ws = buffer p @ data \<longrightarrow> ws = segments)
             \<and> receiver p' = foldl (\<lambda>c m. snd (h m c)) (receiver p) (butlast segments)
             \<and> buffer p' = last segments)
         \<and> dataReceived record_message \<lparr>buffer = [], receiver = [], protocol_log = []\<rparr>
               ''{"a":1}\<newline>{"b":2}\<newline>{"c"''
             = (None, \<lparr>buffer = ''{"c"'', receiver = [''{"a":1}'', ''{"b":2}''],
                       protocol_log = []\<rparr>)\<close>
proof -
  have "join delimiter (split_str delimiter (buffer p @ data)) = buffer p @ data"
    by (rule join_split_str)
  moreover have "\<forall>w \<in> set (split_str delimiter (buffer p @ data)). delimiter \<notin> set w"
    by (simp add: split_str_no_delimiter)
  moreover have "\<forall>ws. ws \<noteq> [] \<and> (\<forall>w \<in> set ws. delimiter \<notin> set w)
      \<and> join delimiter ws = buffer p @ data \<longrightarrow> ws = split_str delimiter (buffer p @ data)"
    using split_str_join [of _ delimiter] by metis
  ultimately show ?thesis
    unfolding Let_def dataReceived_no_raise [of h, OF assms] framing_example
    by simp
qed

theorem C5_dataReceived_frames_messages_witness:
  \<open>fst (dataReceived record_message
            \<lparr>buffer = ''{"a"'', receiver = [''x''], protocol_log = []\<rparr>
            '':1}\<newline>{"b":2}\<newline>{"c"'') = None
    \<and> receiver (snd (dataReceived record_message
            \<lparr>buffer = ''{"a"'', receiver = [''x''], protocol_log = []\<rparr>
            '':1}\<newline>{"b":2}\<newline>{"c"'')) = [''x'', ''{"a":1}'', ''{"b":2}'']
    \<and> buffer (snd (dataReceived record_message
            \<lparr>buffer = ''{"a"'', receiver = [''x''], protocol_log = []\<rparr>
            '':1}\<newline>{"b":2}\<newline>{"c"'')) = ''{"c"''\<close>
proof -
  have h: "fst (record_message m c) = None" for m c
    by (simp add: record_message_def)
  have s: \<open>split_str delimiter (''{"a"'' @ '':1}\<newline>{"b":2}\<newline>{"c"'')
             = [''{"a":1}'', ''{"b":2}'', ''{"c"'']\<close>
    by (simp add: delimiter_def)
  show ?thesis
    using C5_dataReceived_frames_messages [of record_message
                 \<open>\<lparr>buffer = ''{"a"'', receiver = [''x''], protocol_log = []\<rparr>\<close>
                 \<open>'':1}\<newline>{"b":2}\<newline>{"c"''\<close>, OF h] s
    by (simp add: Let_def case_prod_beta record_message_def delimiter_def)
qed


subsection \<open>The connection\<close>

lemmas sample_defs =
  connected_client_def connected_factory_def client_init_def factory_init_def connect_def
  buildProtocol_def connectionMade_def registerConnection_def connectionStateHandler_def
  factory_emit_def

lemma connected_factory_eval:
  "connected_factory =
     \<lparr>connection = Some 0, connected = True, continueTrying = True,
      connectDeferred = None, disconnectDeferred = None, next_deferred = 1,
      factory_events = [ConnectTCP, Fire 0 True, AddShutdownTrigger]\<rparr>"
  by (simp add: sample_defs Let_def)

text \<open>
  Claim C8 at a factory whose established connection has been lost, unexpectedly or
  after \<^verbatim>\<open>disconnect\<close> (which also stops the automatic retries). \<^verbatim>\<open>connected\<close> is
  false, yet \<^verbatim>\<open>connect\<close> opens no TCP connection: it logs that it is already connected
  and returns \<^verbatim>\<open>defer.succeed(True)\<close>, because \<^verbatim>\<open>connection\<close> still holds the lost
  protocol. On a fresh factory \<^verbatim>\<open>connect\<close> opens the connection and returns a
  \<^verbatim>\<open>Deferred\<close> still to fire.
\<close>

theorem C8_connect_after_loss:
  "connected (clientConnectionLost connected_factory) = False
   \<and> fst (connect (clientConnectionLost connected_factory)) = Succeeded True
   \<and> factory_events (snd (connect (clientConnectionLost connected_factory)))
       = factory_events (clientConnectionLost connected_factory)
         @ [FactoryLog WARNING ''Already connected, ignoring connect request'']
   \<and> connected (clientConnectionLost (snd (disconnect connected_factory))) = False
   \<and> factory_events (clientConnectionLost (snd (disconnect connected_factory)))
       = [ConnectTCP, Fire 0 True, AddShutdownTrigger, LoseConnection,
          FactoryLog DEBUG ''PAWS connection lost. Reason: %s'', Fire 1 True]
   \<and> fst (connect (clientConnectionLost (snd (disconnect connected_factory))))
       = Succeeded True
   \<and> factory_events (snd (connect (clientConnectionLost (snd (disconnect connected_factory)))))
       = factory_events (clientConnectionLost (snd (disconnect connected_factory)))
         @ [FactoryLog WARNING ''Already connected, ignoring connect request'']
   \<and> fst (connect factory_init) = Unfired 0
   \<and> factory_events (snd (connect factory_init)) = [ConnectTCP]"
  by (simp add: connected_factory_eval disconnect_def connectionStateHandler_def
        clientConnectionLost_def reconnecting_def connect_def factory_init_def
        factory_emit_def Let_def)

subsection \<open>What the trace shows\<close>

lemma invocations_append: "invocations (xs @ ys) = invocations xs @ invocations ys"
  by (induction xs rule: invocations.induct) simp_all

lemma resolutions_append: "resolutions (xs @ ys) = resolutions xs @ resolutions ys"
  by (induction xs rule: resolutions.induct) simp_all

lemma unroutable_count_append:
  "unroutable_count (xs @ ys) = unroutable_count xs + unroutable_count ys"
  by (induction xs rule: unroutable_count.induct) simp_all

lemma unroutable_log_observed:
  "invocations (unroutable_log :: 'd client_event list) = []"
  "resolutions (unroutable_log :: 'd client_event list) = []"
  "unroutable_count (unroutable_log :: 'd client_event list) = 1"
  by (simp_all add: unroutable_log_def)

lemma status_tables:
  "paws_getResponseCodeStatusFromHeader response s = (r, s') \<Longrightarrow>
     pendingResponses s' = pendingResponses s
     \<and> subscriptionHandlers s' = subscriptionHandlers s
     \<and> factory s' = factory s
     \<and> invocations (events s') = invocations (events s)
     \<and> resolutions (events s') = resolutions (events s)
     \<and> unroutable_count (events s') = unroutable_count (events s)"
  by (auto simp: paws_getResponseCodeStatusFromHeader_def emit_def Let_def
        invocations_append resolutions_append unroutable_count_append
        split: sum.splits if_splits)

lemma location_tables:
  "paws_getLocationFromHeader response s = (r, s') \<Longrightarrow>
     pendingResponses s' = pendingResponses s
     \<and> subscriptionHandlers s' = subscriptionHandlers s
     \<and> factory s' = factory s
     \<and> invocations (events s') = invocations (events s)
     \<and> resolutions (events s') = resolutions (events s)
     \<and> unroutable_count (events s') = unroutable_count (events s)"
  by (auto simp: paws_getLocationFromHeader_def emit_def
        invocations_append resolutions_append unroutable_count_append
        split: sum.splits if_splits bool.splits)

lemma continue_observed:
  assumes "continue L w t response s = (r, s')"
  shows "pendingResponses s' = pendingResponses s"
    and "factory s' = factory s"
    and "invocations (events s') = invocations (events s)"
    and "resolutions (events s') = resolutions (events s)"
    and "unroutable_count (events s') = unroutable_count (events s)"
    and "subscriptionHandlers s' = subscriptionHandlers s
         \<or> (\<exists>h k. w = AwaitSubscribe h k
                \<and> subscriptionHandlers s' = (subscriptionHandlers s)(t \<mapsto> (h, k)))"
  using assms
  by (auto simp: continue_def split: waiter.splits prod.splits sum.splits json.splits
        dest!: status_tables location_tables)

lemma continue_None: "continue L w t JNull s = (Inl TypeError, s)"
  by (cases w) (simp_all add: continue_def paws_getResponseCodeStatusFromHeader_def
        paws_getLocationFromHeader_def)

subsection \<open>Sending a request\<close>

lemma sendRequest_connected:
  "connected (factory s) \<Longrightarrow> connection (factory s) = Some proto \<Longrightarrow>
     sendRequest w method resource parameters body token fresh s =
       (Inr (Some (case token of None \<Rightarrow> fresh | Some t \<Rightarrow> t)),
        s\<lparr>events := events s @ [ClientLog DEBUG ''About to send:\<newline>%s\<newline>''],
          factory := factory_emit
            (Write (envelope (api_key s) method resource parameters body
                      (case token of None \<Rightarrow> fresh | Some t \<Rightarrow> t))) (factory s),
          pendingResponses :=
            (pendingResponses s)((case token of None \<Rightarrow> fresh | Some t \<Rightarrow> t) \<mapsto> w)\<rparr>)"
  by (simp add: sendRequest_def Let_def emit_def send_def)

lemma sendRequest_not_connected:
  "\<not> connected (factory s) \<Longrightarrow>
     sendRequest w method resource parameters body token fresh s =
       (Inr None,
        s\<lparr>events := events s @ [ClientLog DEBUG ''About to send:\<newline>%s\<newline>'',
                                 ClientLog ERROR ''Send failed, no connection exists'']\<rparr>)"
  by (simp add: sendRequest_def Let_def emit_def)

lemma sendRequest_observed:
  assumes "sendRequest w method resource parameters body token fresh s = (r, s')"
  shows "subscriptionHandlers s' = subscriptionHandlers s"
    and "invocations (events s') = invocations (events s)"
    and "resolutions (events s') = resolutions (events s)"
    and "unroutable_count (events s') = unroutable_count (events s)"
    and "pendingResponses s' = pendingResponses s
         \<or> pendingResponses s' =
             (pendingResponses s)((case token of None \<Rightarrow> fresh | Some t \<Rightarrow> t) \<mapsto> w)"
  using assms
  by (auto simp: sendRequest_def Let_def emit_def send_def
        invocations_append resolutions_append unroutable_count_append
        split: if_splits option.splits prod.splits)

lemma yield_request_observed:
  assumes "yield_request L w method resource body token fresh s = (out, s')"
  shows "subscriptionHandlers s' = subscriptionHandlers s"
    and "invocations (events s') = invocations (events s)"
    and "resolutions (events s') = resolutions (events s)"
    and "unroutable_count (events s') = unroutable_count (events s)"
    and "pendingResponses s' = pendingResponses s
         \<or> pendingResponses s' =
             (pendingResponses s)((case token of None \<Rightarrow> fresh | Some t \<Rightarrow> t) \<mapsto> w)"
proof -
  obtain r s1 where sr: "sendRequest w method resource None body token fresh s = (r, s1)"
    by (cases "sendRequest w method resource None body token fresh s")
  note o = sendRequest_observed [OF sr]
  have "s' = s1"
    using assms sr
    by (auto simp: yield_request_def continue_None split: sum.splits option.splits)
  with o show "subscriptionHandlers s' = subscriptionHandlers s"
    and "invocations (events s') = invocations (events s)"
    and "resolutions (events s') = resolutions (events s)"
    and "unroutable_count (events s') = unroutable_count (events s)"
    and "pendingResponses s' = pendingResponses s
         \<or> pendingResponses s' =
             (pendingResponses s)((case token of None \<Rightarrow> fresh | Some t \<Rightarrow> t) \<mapsto> w)"
    by simp_all
qed

lemma yield_request_connected:
  "connected (factory s) \<Longrightarrow> connection (factory s) = Some proto \<Longrightarrow>
     yield_request L w method resource body (Some t) fresh s =
       (Suspended t,
        s\<lparr>events := events s @ [ClientLog DEBUG ''About to send:\<newline>%s\<newline>''],
          factory := factory_emit
            (Write (envelope (api_key s) method resource None body t)) (factory s),
          pendingResponses := (pendingResponses s)(t \<mapsto> w)\<rparr>)"
  by (simp add: yield_request_def sendRequest_connected)

lemma yield_request_not_connected:
  "\<not> connected (factory s) \<Longrightarrow>
     yield_request L w method resource body token fresh s =
       (Done (Inl TypeError),
        s\<lparr>events := events s @ [ClientLog DEBUG ''About to send:\<newline>%s\<newline>'',
                                 ClientLog ERROR ''Send failed, no connection exists'']\<rparr>)"
  by (simp add: yield_request_def sendRequest_not_connected continue_None)

text \<open>
  Claim C7. When the transport is not connected, \<^verbatim>\<open>_sendRequest\<close> returns \<^verbatim>\<open>None\<close>
  at once: the transport is untouched (nothing is written), \<^verbatim>\<open>pendingResponses\<close> is
  unchanged, and the failure is logged. An operation built on it ends at once with an
  error, with the same transport and the same table.
\<close>

theorem C7_send_not_connected:
  assumes "\<not> connected (factory s)"
  shows "fst (sendRequest w method resource parameters body token fresh s) = Inr None
     \<and> factory (snd (sendRequest w method resource parameters body token fresh s)) = factory s
     \<and> pendingResponses (snd (sendRequest w method resource parameters body token fresh s))
         = pendingResponses s
     \<and> events (snd (sendRequest w method resource parameters body token fresh s))
         = events s @ [ClientLog DEBUG ''About to send:\<newline>%s\<newline>'',
                       ClientLog ERROR ''Send failed, no connection exists'']
     \<and> fst (yield_request L w method resource body token fresh s) = Done (Inl TypeError)
     \<and> factory (snd (yield_request L w method resource body token fresh s)) = factory s
     \<and> pendingResponses (snd (yield_request L w method resource body token fresh s))
         = pendingResponses s"
  using assms by (simp add: sendRequest_not_connected yield_request_not_connected)

theorem C7_send_not_connected_witness:
  "fst (sendRequest AwaitStatus ''put'' ''/feeds/1'' None (Some ''{}'') None ''t1''
          (client_init (Some ''key'') :: unit PAWSClient)) = Inr None
   \<and> factory_events (factory (snd (sendRequest AwaitStatus ''put'' ''/feeds/1'' None (Some ''{}'')
          None ''t1'' (client_init (Some ''key'') :: unit PAWSClient)))) = []
   \<and> pendingResponses (snd (sendRequest AwaitStatus ''put'' ''/feeds/1'' None (Some ''{}'')
          None ''t1'' (client_init (Some ''key'') :: unit PAWSClient))) ''t1'' = None"
proof -
  have nc: "\<not> connected (factory (client_init (Some ''key'') :: unit PAWSClient))"
    by (simp add: client_init_def factory_init_def)
  show ?thesis
    using C7_send_not_connected [OF nc, of AwaitStatus "''put''" "''/feeds/1''" None "Some ''{}''" None "''t1''"]
    by (simp add: client_init_def factory_init_def)
qed

subsection \<open>The message handler\<close>

lemma messageHandler_pending:
  assumes "loads L msg = Inr data" and "getitem data ''token'' = Inr (JString t)"
    and "pendingResponses s t = Some w"
  shows "messageHandler L msg s =
           (None,
            (callback L w t data
               (emit (ClientLog DEBUG ''PAWSClient has received a message:\<newline>%s\<newline>'') s))
            \<lparr>pendingResponses :=
                (pendingResponses
                   (callback L w t data
                      (emit (ClientLog DEBUG ''PAWSClient has received a message:\<newline>%s\<newline>'')
                         s)))(t := None)\<rparr>)"
  using assms by (simp add: messageHandler_def Let_def emit_def)

lemma messageHandler_subscription:
  assumes "loads L msg = Inr data" and "getitem data ''token'' = Inr (JString t)"
    and "pendingResponses s t = None" and "subscriptionHandlers s t = Some (h, k)"
    and "getitem data ''body'' = Inr (JObject body)" and "construct L k body = Inr d"
  shows "messageHandler L msg s =
           (None,
            s\<lparr>events := events s @
                 [ClientLog DEBUG ''PAWSClient has received a message:\<newline>%s\<newline>'',
                  Invoke h d]\<rparr>)"
  using assms by (simp add: messageHandler_def Let_def emit_def)

lemma messageHandler_unroutable:
  assumes "loads L msg = Inr data" and "getitem data ''token'' = Inr (JString t)"
    and "pendingResponses s t = None" and "subscriptionHandlers s t = None"
  shows "messageHandler L msg s =
           (None,
            s\<lparr>events := events s @
                 ClientLog DEBUG ''PAWSClient has received a message:\<newline>%s\<newline>''
                 # unroutable_log\<rparr>)"
  using assms by (simp add: messageHandler_def Let_def emit_def)

lemma callback_observed:
  shows "pendingResponses (callback L w t data s) = pendingResponses s"
    and "factory (callback L w t data s) = factory s"
    and "invocations (events (callback L w t data s)) = invocations (events s)"
    and "resolutions (events (callback L w t data s)) = resolutions (events s) @ [(t, data)]"
    and "unroutable_count (events (callback L w t data s)) = unroutable_count (events s)"
    and "subscriptionHandlers (callback L w t data s) = subscriptionHandlers s
         \<or> (\<exists>h k. w = AwaitSubscribe h k
                \<and> subscriptionHandlers (callback L w t data s)
                    = (subscriptionHandlers s)(t \<mapsto> (h, k)))"
proof -
  obtain r s1 where c: "continue L w t data (emit (Callback t data) s) = (r, s1)"
    by (cases "continue L w t data (emit (Callback t data) s)")
  note o = continue_observed [OF c]
  have cb: "callback L w t data s = emit (Finished t r) s1"
    by (simp add: callback_def c)
  show "pendingResponses (callback L w t data s) = pendingResponses s"
    using o(1) by (simp add: cb emit_def)
  show "factory (callback L w t data s) = factory s"
    using o(2) by (simp add: cb emit_def)
  show "invocations (events (callback L w t data s)) = invocations (events s)"
    using o(3) by (simp add: cb emit_def invocations_append)
  show "resolutions (events (callback L w t data s)) = resolutions (events s) @ [(t, data)]"
    using o(4) by (simp add: cb emit_def resolutions_append)
  show "unroutable_count (events (callback L w t data s)) = unroutable_count (events s)"
    using o(5) by (simp add: cb emit_def unroutable_count_append)
  show "subscriptionHandlers (callback L w t data s) = subscriptionHandlers s
         \<or> (\<exists>h k. w = AwaitSubscribe h k
                \<and> subscriptionHandlers (callback L w t data s)
                    = (subscriptionHandlers s)(t \<mapsto> (h, k)))"
    using o(6) by (simp add: cb emit_def)
qed

lemma callback_subscribe:
  assumes "getitem data ''status'' = Inr st"
  shows "subscriptionHandlers (callback L (AwaitSubscribe h k) t data s)
           = (subscriptionHandlers s)(t \<mapsto> (h, k))"
    and "events (callback L (AwaitSubscribe h k) t data s)
           = events s @ Callback t data
               # (if st = JNumber 200 then []
                  else [ClientLog ERROR ''Expected status response code 200, received %s''])
               @ [Finished t (Inr (Token_Status t (st = JNumber 200)))]"
  using assms
  by (simp_all add: callback_def continue_def paws_getResponseCodeStatusFromHeader_def
        emit_def Let_def)

lemma dict_key_string: "dict_key j = Inr (Some t) \<Longrightarrow> j = JString t"
  by (cases j) simp_all

lemma messageHandler_cases:
  "(\<exists>data t w. loads L msg = Inr data \<and> getitem data ''token'' = Inr (JString t)
        \<and> pendingResponses s t = Some w)
   \<or> (\<exists>r lg. messageHandler L msg s = (r, s\<lparr>events := events s @ lg\<rparr>))"
proof (cases "\<exists>data t w. loads L msg = Inr data \<and> getitem data ''token'' = Inr (JString t)
        \<and> pendingResponses s t = Some w")
  case True
  then show ?thesis by blast
next
  case False
  then have n: "loads L msg = Inr data \<Longrightarrow> getitem data ''token'' = Inr j
      \<Longrightarrow> dict_key j = Inr (Some t) \<Longrightarrow> pendingResponses s t = None" for data j t
    using dict_key_string [of j t] by (cases "pendingResponses s t") auto
  have "\<exists>r lg. messageHandler L msg s = (r, s\<lparr>events := events s @ lg\<rparr>)"
    by (auto simp: messageHandler_def Let_def emit_def n
          split: sum.splits option.splits prod.splits json.splits)
  then show ?thesis by blast
qed

lemma messageHandler_tables:
  "(pendingResponses (snd (messageHandler L msg s)) = pendingResponses s
      \<and> subscriptionHandlers (snd (messageHandler L msg s)) = subscriptionHandlers s)
   \<or> (\<exists>t. pendingResponses (snd (messageHandler L msg s)) = (pendingResponses s)(t := None)
          \<and> (subscriptionHandlers (snd (messageHandler L msg s)) = subscriptionHandlers s
              \<or> (\<exists>hk. subscriptionHandlers (snd (messageHandler L msg s))
                          = (subscriptionHandlers s)(t \<mapsto> hk))))"
  using messageHandler_cases [of L msg s]
proof (elim disjE exE conjE)
  fix data t w
  assume l: "loads L msg = Inr data" and k: "getitem data ''token'' = Inr (JString t)"
    and p: "pendingResponses s t = Some w"
  let ?s1 = "emit (ClientLog DEBUG ''PAWSClient has received a message:\<newline>%s\<newline>'') s"
  have s1: "pendingResponses ?s1 = pendingResponses s"
    "subscriptionHandlers ?s1 = subscriptionHandlers s"
    by (simp_all add: emit_def)
  have "pendingResponses (snd (messageHandler L msg s)) = (pendingResponses s)(t := None)"
    by (simp add: messageHandler_pending [OF l k p] callback_observed(1) s1)
  moreover have "subscriptionHandlers (snd (messageHandler L msg s)) = subscriptionHandlers s
      \<or> (\<exists>hk. subscriptionHandlers (snd (messageHandler L msg s))
                  = (subscriptionHandlers s)(t \<mapsto> hk))"
    using callback_observed(6) [of L w t data ?s1]
    by (auto simp: messageHandler_pending [OF l k p] s1)
  ultimately show ?thesis by blast
next
  fix r lg
  assume "messageHandler L msg s = (r, s\<lparr>events := events s @ lg\<rparr>)"
  then show ?thesis by simp
qed

subsection \<open>The sample client\<close>

lemma sample_loads:
  \<open>loads sample_layer ''{"token":"t1","status":200}''
     = Inr (JObject [(''token'', JString ''t1''), (''status'', JNumber 200)])\<close>
  \<open>loads sample_layer ''{"token":"t1","status":404}''
     = Inr (JObject [(''token'', JString ''t1''), (''status'', JNumber 404)])\<close>
  \<open>loads sample_layer ''{"token":"t1","body":{"id":"5"}}''
     = Inr (JObject [(''token'', JString ''t1''), (''body'', JObject [(''id'', JString ''5'')])])\<close>
  \<open>loads sample_layer ''{"token":"t9","body":{"id":"5"}}''
     = Inr (JObject [(''token'', JString ''t9''), (''body'', JObject [(''id'', JString ''5'')])])\<close>
  by (simp_all add: sample_layer_def sample_messages_def)

lemma sample_tokens:
  "getitem (JObject [(''token'', JString ''t1''), (''status'', JNumber 200)]) ''token''
     = Inr (JString ''t1'')"
  "getitem (JObject [(''token'', JString ''t1''), (''status'', JNumber 404)]) ''token''
     = Inr (JString ''t1'')"
  "getitem (JObject [(''token'', JString ''t1''), (''body'', JObject [(''id'', JString ''5'')])])
     ''token'' = Inr (JString ''t1'')"
  "getitem (JObject [(''token'', JString ''t9''), (''body'', JObject [(''id'', JString ''5'')])])
     ''token'' = Inr (JString ''t9'')"
  by simp_all

lemma awaiting_client_eval:
  "awaiting_client =
     \<lparr>api_key = Some ''key'',
      factory = connected_factory\<lparr>factory_events :=
        [ConnectTCP, Fire 0 True, AddShutdownTrigger,
         Write (JObject [(''method'', JString ''subscribe''),
                         (''resource'', JString ''/feeds/1/datastreams/2''),
                         (''headers'', JObject [(''X-ApiKey'', JString ''key'')]),
                         (''token'', JString ''t1'')])]\<rparr>,
      pendingResponses = [''t1'' \<mapsto> AwaitSubscribe 7 Datastream],
      subscriptionHandlers = Map.empty,
      events = [ClientLog DEBUG ''About to send:\<newline>%s\<newline>'']\<rparr>"
  by (simp add: awaiting_client_def subscribe_def connected_client_def client_init_def
        connected_factory_eval yield_request_connected [where proto = 0] factory_emit_def
        envelope_def)

lemma subscribed_client_eval:
  \<open>subscribed_client =
     \<lparr>api_key = Some ''key'',
      factory = factory awaiting_client,
      pendingResponses = Map.empty,
      subscriptionHandlers = [''t1'' \<mapsto> (7, Datastream)],
      events = [ClientLog DEBUG ''About to send:\<newline>%s\<newline>'',
                ClientLog DEBUG ''PAWSClient has received a message:\<newline>%s\<newline>'',
                Callback ''t1'' (JObject [(''token'', JString ''t1''), (''status'', JNumber 200)]),
                Finished ''t1'' (Inr (Token_Status ''t1'' True))]\<rparr>\<close>
  by (simp add: subscribed_client_def awaiting_client_eval messageHandler_def sample_loads
        Let_def emit_def callback_def continue_def paws_getResponseCodeStatusFromHeader_def)

lemma unsubscribed_eval:
  "unsubscribe sample_layer ''/feeds/1/datastreams/2'' ''t1'' ''t2'' subscribed_client =
     (Suspended ''t1'',
      subscribed_client
        \<lparr>subscriptionHandlers := Map.empty,
         events := events subscribed_client @ [ClientLog DEBUG ''About to send:\<newline>%s\<newline>''],
         factory := (factory subscribed_client)\<lparr>factory_events :=
           factory_events (factory subscribed_client)
           @ [Write (JObject [(''method'', JString ''unsubscribe''),
                              (''resource'', JString ''/feeds/1/datastreams/2''),
                              (''headers'', JObject [(''X-ApiKey'', JString ''key'')]),
                              (''token'', JString ''t1'')])]\<rparr>,
         pendingResponses := [''t1'' \<mapsto> AwaitStatus]\<rparr>)"
  by (simp add: unsubscribe_def subscribed_client_eval awaiting_client_eval
        connected_factory_eval yield_request_connected [where proto = 0] factory_emit_def
        envelope_def)

lemma creating_client_eval:
  \<open>creating_client =
     \<lparr>api_key = Some ''key'',
      factory = connected_factory\<lparr>factory_events :=
        [ConnectTCP, Fire 0 True, AddShutdownTrigger,
         Write (JObject [(''method'', JString ''post''),
                         (''resource'', JString ''/feeds''),
                         (''headers'', JObject [(''X-ApiKey'', JString ''key'')]),
                         (''body'', JString ''{"title":"demo"}''),
                         (''token'', JString ''t2'')])]\<rparr>,
      pendingResponses = [''t2'' \<mapsto> AwaitLocation],
      subscriptionHandlers = Map.empty,
      events = [ClientLog DEBUG ''About to send:\<newline>%s\<newline>'']\<rparr>\<close>
  by (simp add: creating_client_def create_feed_def connected_client_def client_init_def
        connected_factory_eval yield_request_def sendRequest_connected [where proto = 0]
        factory_emit_def envelope_def)

lemma awaiting_client_reachable: "reachable sample_layer awaiting_client"
proof -
  have "reachable sample_layer (connected_client (Some ''key''))"
    unfolding connected_client_def by (rule reachable.transport) (rule reachable.init)
  moreover have "''t1'' \<notin> dom (pendingResponses (connected_client (Some ''key'')
        :: (kind \<times> (string \<times> json) list) PAWSClient))
      \<union> dom (subscriptionHandlers (connected_client (Some ''key'')
        :: (kind \<times> (string \<times> json) list) PAWSClient))"
    by (simp add: connected_client_def client_init_def)
  ultimately show ?thesis
    unfolding awaiting_client_def by (rule reachable.subscribing)
qed

subsection \<open>Dispatch\<close>

text \<open>
  Claim C2. For a message that parses and carries a string token, \<^verbatim>\<open>_messageHandler\<close>
  dispatches in this order. A token in \<^verbatim>\<open>pendingResponses\<close>: the entry's
  \<^verbatim>\<open>Deferred\<close> is fired with the message and the entry is removed; no handler is called
  and nothing is reported as unrecognised. Otherwise a token in
  \<^verbatim>\<open>subscriptionHandlers\<close>: the body is made into the bound data structure class and
  the handler is called with it; both tables stay as they were. Otherwise the message is
  logged as unrecognised and dropped: no \<^verbatim>\<open>Deferred\<close> fires, no handler is called, the
  tables stay as they were.
\<close>

theorem C2_message_dispatch:
  assumes "loads L msg = Inr data" and "getitem data ''token'' = Inr (JString t)"
  shows "(\<forall>w. pendingResponses s t = Some w \<longrightarrow>
            fst (messageHandler L msg s) = None
            \<and> pendingResponses (snd (messageHandler L msg s)) = (pendingResponses s)(t := None)
            \<and> resolutions (events (snd (messageHandler L msg s)))
                = resolutions (events s) @ [(t, data)]
            \<and> invocations (events (snd (messageHandler L msg s))) = invocations (events s)
            \<and> unroutable_count (events (snd (messageHandler L msg s)))
                = unroutable_count (events s))
       \<and> (\<forall>h k body d. pendingResponses s t = None \<and> subscriptionHandlers s t = Some (h, k)
             \<and> getitem data ''body'' = Inr (JObject body) \<and> construct L k body = Inr d \<longrightarrow>
            messageHandler L msg s =
              (None,
               s\<lparr>events := events s @
                    [ClientLog DEBUG ''PAWSClient has received a message:\<newline>%s\<newline>'',
                     Invoke h d]\<rparr>))
       \<and> (pendingResponses s t = None \<and> subscriptionHandlers s t = None \<longrightarrow>
            messageHandler L msg s =
              (None,
               s\<lparr>events := events s @
                    ClientLog DEBUG ''PAWSClient has received a message:\<newline>%s\<newline>''
                    # unroutable_log\<rparr>)
            \<and> resolutions (events (snd (messageHandler L msg s))) = resolutions (events s)
            \<and> invocations (events (snd (messageHandler L msg s))) = invocations (events s)
            \<and> unroutable_count (events (snd (messageHandler L msg s)))
                = Suc (unroutable_count (events s)))"
proof (intro conjI allI impI)
  fix w
  assume p: "pendingResponses s t = Some w"
  let ?s1 = "emit (ClientLog DEBUG ''PAWSClient has received a message:\<newline>%s\<newline>'') s"
  note m = messageHandler_pending [OF assms p]
  show "fst (messageHandler L msg s) = None"
    by (simp add: m)
  show "pendingResponses (snd (messageHandler L msg s)) = (pendingResponses s)(t := None)"
    by (simp add: m callback_observed(1)) (simp add: emit_def)
  show "resolutions (events (snd (messageHandler L msg s))) = resolutions (events s) @ [(t, data)]"
    by (simp add: m callback_observed(4)) (simp add: emit_def resolutions_append)
  show "invocations (events (snd (messageHandler L msg s))) = invocations (events s)"
    by (simp add: m callback_observed(3)) (simp add: emit_def invocations_append)
  show "unroutable_count (events (snd (messageHandler L msg s))) = unroutable_count (events s)"
    by (simp add: m callback_observed(5)) (simp add: emit_def unroutable_count_append)
next
  fix h k body d
  assume "pendingResponses s t = None \<and> subscriptionHandlers s t = Some (h, k)
     \<and> getitem data ''body'' = Inr (JObject body) \<and> construct L k body = Inr d"
  then show "messageHandler L msg s =
              (None,
               s\<lparr>events := events s @
                    [ClientLog DEBUG ''PAWSClient has received a message:\<newline>%s\<newline>'',
                     Invoke h d]\<rparr>)"
    using messageHandler_subscription [OF assms] by blast
next
  assume n: "pendingResponses s t = None \<and> subscriptionHandlers s t = None"
  then have m: "messageHandler L msg s =
              (None,
               s\<lparr>events := events s @
                    ClientLog DEBUG ''PAWSClient has received a message:\<newline>%s\<newline>''
                    # unroutable_log\<rparr>)"
    using messageHandler_unroutable [OF assms] by blast
  show "messageHandler L msg s =
              (None,
               s\<lparr>events := events s @
                    ClientLog DEBUG ''PAWSClient has received a message:\<newline>%s\<newline>''
                    # unroutable_log\<rparr>)"
    by (rule m)
  show "resolutions (events (snd (messageHandler L msg s))) = resolutions (events s)"
    by (simp add: m resolutions_append unroutable_log_observed)
  show "invocations (events (snd (messageHandler L msg s))) = invocations (events s)"
    by (simp add: m invocations_append unroutable_log_observed)
  show "unroutable_count (events (snd (messageHandler L msg s))) = Suc (unroutable_count (events s))"
    by (simp add: m unroutable_count_append unroutable_log_observed)
qed

theorem C2_message_dispatch_witness:
  \<open>pendingResponses (snd (messageHandler sample_layer ''{"token":"t1","status":200}''
       awaiting_client)) ''t1'' = None
   \<and> resolutions (events (snd (messageHandler sample_layer ''{"token":"t1","status":200}''
       awaiting_client)))
       = [(''t1'', JObject [(''token'', JString ''t1''), (''status'', JNumber 200)])]
   \<and> invocations (events (snd (messageHandler sample_layer ''{"token":"t1","body":{"id":"5"}}''
       subscribed_client))) = [(7, (Datastream, [(''id'', JString ''5'')]))]
   \<and> subscriptionHandlers (snd (messageHandler sample_layer ''{"token":"t1","body":{"id":"5"}}''
       subscribed_client)) ''t1'' = Some (7, Datastream)
   \<and> unroutable_count (events (snd (messageHandler sample_layer
       ''{"token":"t9","body":{"id":"5"}}'' subscribed_client))) = 1
   \<and> invocations (events (snd (messageHandler sample_layer
       ''{"token":"t9","body":{"id":"5"}}'' subscribed_client))) = []\<close>
proof -
  have a: "pendingResponses awaiting_client ''t1'' = Some (AwaitSubscribe 7 Datastream)"
    by (simp add: awaiting_client_eval)
  have b: "pendingResponses subscribed_client ''t1'' = None
      \<and> subscriptionHandlers subscribed_client ''t1'' = Some (7, Datastream)
      \<and> getitem (JObject [(''token'', JString ''t1''),
                           (''body'', JObject [(''id'', JString ''5'')])]) ''body''
          = Inr (JObject [(''id'', JString ''5'')])
      \<and> construct sample_layer Datastream [(''id'', JString ''5'')]
          = Inr (Datastream, [(''id'', JString ''5'')])"
    by (simp add: subscribed_client_eval sample_layer_def)
  have c: "pendingResponses subscribed_client ''t9'' = None
      \<and> subscriptionHandlers subscribed_client ''t9'' = None"
    by (simp add: subscribed_client_eval)
  note A = C2_message_dispatch [OF sample_loads(1) sample_tokens(1), of awaiting_client]
  note B = C2_message_dispatch [OF sample_loads(3) sample_tokens(3), of subscribed_client]
  note C = C2_message_dispatch [OF sample_loads(4) sample_tokens(4), of subscribed_client]
  have 1: \<open>pendingResponses (snd (messageHandler sample_layer ''{"token":"t1","status":200}''
       awaiting_client)) ''t1'' = None
   \<and> resolutions (events (snd (messageHandler sample_layer ''{"token":"t1","status":200}''
       awaiting_client)))
       = [(''t1'', JObject [(''token'', JString ''t1''), (''status'', JNumber 200)])]\<close>
    using A a by (simp add: awaiting_client_eval)
  have 2: \<open>messageHandler sample_layer ''{"token":"t1","body":{"id":"5"}}'' subscribed_client
       = (None, subscribed_client\<lparr>events := events subscribed_client @
            [ClientLog DEBUG ''PAWSClient has received a message:\<newline>%s\<newline>'',
             Invoke 7 (Datastream, [(''id'', JString ''5'')])]\<rparr>)\<close>
    using B b by blast
  have 3: \<open>unroutable_count (events (snd (messageHandler sample_layer
       ''{"token":"t9","body":{"id":"5"}}'' subscribed_client)))
          = Suc (unroutable_count (events subscribed_client))
   \<and> invocations (events (snd (messageHandler sample_layer
       ''{"token":"t9","body":{"id":"5"}}'' subscribed_client)))
          = invocations (events subscribed_client)\<close>
    using C c by blast
  show ?thesis
    using 1 3 by (simp add: 2 invocations_append) (simp add: subscribed_client_eval)
qed

subsection \<open>Unsubscribing\<close>

lemma unsubscribe_removes:
  "unsubscribe L resource t fresh s =
     yield_request L AwaitStatus ''unsubscribe'' resource None (Some t) fresh
       (s\<lparr>subscriptionHandlers := (subscriptionHandlers s)(t := None)\<rparr>)"
proof (cases "t \<in> dom (subscriptionHandlers s)")
  case True
  then show ?thesis by (simp add: unsubscribe_def)
next
  case False
  then have "(subscriptionHandlers s)(t := None) = subscriptionHandlers s"
    by (auto simp: fun_upd_idem_iff)
  with False show ?thesis by (simp add: unsubscribe_def)
qed

text \<open>
  Claim C3, as the code has it. \<^verbatim>\<open>unsubscribe(resource, token)\<close> sends its request from
  the state in which the subscription entry is already removed, so the entry is gone
  whether or not the request can be sent. A message with that token processed next calls
  no subscription handler. With the transport connected the request is sent and waits
  under the same token, so that message is taken as the response to the unsubscribe
  request: it fires the pending \<^verbatim>\<open>Deferred\<close>, removes the pending entry, and is not
  logged as unrecognised. The message is logged as unrecognised, once, when the request
  could not be sent (no connection) and nothing else was pending under the token.
\<close>

theorem C3_unsubscribe_then_push:
  shows "unsubscribe L resource t fresh s =
           yield_request L AwaitStatus ''unsubscribe'' resource None (Some t) fresh
             (s\<lparr>subscriptionHandlers := (subscriptionHandlers s)(t := None)\<rparr>)
     \<and> subscriptionHandlers (snd (unsubscribe L resource t fresh s)) t = None
     \<and> (\<forall>msg data. loads L msg = Inr data \<and> getitem data ''token'' = Inr (JString t) \<longrightarrow>
           invocations (events (snd (messageHandler L msg (snd (unsubscribe L resource t fresh s)))))
             = invocations (events s))
     \<and> (connected (factory s) \<and> connection (factory s) \<noteq> None \<longrightarrow>
           fst (unsubscribe L resource t fresh s) = Suspended t
           \<and> factory_events (factory (snd (unsubscribe L resource t fresh s)))
               = factory_events (factory s)
                   @ [Write (envelope (api_key s) ''unsubscribe'' resource None None t)]
           \<and> pendingResponses (snd (unsubscribe L resource t fresh s)) t = Some AwaitStatus
           \<and> (\<forall>msg data. loads L msg = Inr data \<and> getitem data ''token'' = Inr (JString t) \<longrightarrow>
                 unroutable_count (events (snd (messageHandler L msg
                     (snd (unsubscribe L resource t fresh s)))))
                   = unroutable_count (events s)
                 \<and> resolutions (events (snd (messageHandler L msg
                     (snd (unsubscribe L resource t fresh s)))))
                   = resolutions (events s) @ [(t, data)]
                 \<and> pendingResponses (snd (messageHandler L msg
                     (snd (unsubscribe L resource t fresh s)))) t = None))
     \<and> (\<not> connected (factory s) \<and> pendingResponses s t = None \<longrightarrow>
           (\<forall>msg data. loads L msg = Inr data \<and> getitem data ''token'' = Inr (JString t) \<longrightarrow>
                 unroutable_count (events (snd (messageHandler L msg
                     (snd (unsubscribe L resource t fresh s)))))
                   = Suc (unroutable_count (events s))))"
proof -
  let ?s0 = "s\<lparr>subscriptionHandlers := (subscriptionHandlers s)(t := None)\<rparr>"
  let ?u = "unsubscribe L resource t fresh s"
  obtain out s1 where u: "?u = (out, s1)"
    by (cases ?u)
  have y: "yield_request L AwaitStatus ''unsubscribe'' resource None (Some t) fresh ?s0 = (out, s1)"
    using u by (simp add: unsubscribe_removes)
  note o = yield_request_observed [OF y]
  have subs: "subscriptionHandlers s1 t = None"
    using o(1) by simp
  have pend: "pendingResponses s1 t = pendingResponses s t \<or> pendingResponses s1 t = Some AwaitStatus"
    using o(5) by auto
  have inv: "invocations (events (snd (messageHandler L msg s1))) = invocations (events s)"
    if l: "loads L msg = Inr data" and k: "getitem data ''token'' = Inr (JString t)" for msg data
  proof (cases "pendingResponses s1 t")
    case None
    show ?thesis
      using o(2) by (simp add: messageHandler_unroutable [OF l k None subs]
          invocations_append unroutable_log_observed)
  next
    case (Some w)
    show ?thesis
      using o(2)
      by (simp add: messageHandler_pending [OF l k Some] callback_observed(3))
         (simp add: emit_def invocations_append)
  qed
  have conn: "out = Suspended t
      \<and> factory_events (factory s1)
          = factory_events (factory s) @ [Write (envelope (api_key s) ''unsubscribe'' resource None None t)]
      \<and> pendingResponses s1 t = Some AwaitStatus"
    if c1: "connected (factory s)" and c2: "connection (factory s) \<noteq> None"
  proof -
    obtain proto where "connection (factory s) = Some proto"
      using c2 by auto
    then show ?thesis
      using y c1
      by (auto simp: yield_request_connected [where proto = proto] factory_emit_def)
  qed
  have routed: "unroutable_count (events (snd (messageHandler L msg s1))) = unroutable_count (events s)
      \<and> resolutions (events (snd (messageHandler L msg s1))) = resolutions (events s) @ [(t, data)]
      \<and> pendingResponses (snd (messageHandler L msg s1)) t = None"
    if c1: "connected (factory s)" and c2: "connection (factory s) \<noteq> None"
      and l: "loads L msg = Inr data" and k: "getitem data ''token'' = Inr (JString t)"
    for msg data
  proof -
    have p: "pendingResponses s1 t = Some AwaitStatus"
      using conn [OF c1 c2] by simp
    show ?thesis
      using o(3,4)
      by (simp add: messageHandler_pending [OF l k p] callback_observed(1,4,5))
         (simp add: emit_def resolutions_append unroutable_count_append)
  qed
  have dropped: "unroutable_count (events (snd (messageHandler L msg s1)))
        = Suc (unroutable_count (events s))"
    if nc: "\<not> connected (factory s)" and np: "pendingResponses s t = None"
      and l: "loads L msg = Inr data" and k: "getitem data ''token'' = Inr (JString t)"
    for msg data
  proof -
    have "s1 = ?s0\<lparr>events := events ?s0 @ [ClientLog DEBUG ''About to send:\<newline>%s\<newline>'',
                                 ClientLog ERROR ''Send failed, no connection exists'']\<rparr>"
      using y nc by (simp add: yield_request_not_connected)
    then have p: "pendingResponses s1 t = None"
      using np by simp
    show ?thesis
      using o(4)
      by (simp add: messageHandler_unroutable [OF l k p subs] unroutable_count_append
            unroutable_log_observed)
  qed
  show ?thesis
    unfolding u snd_conv fst_conv
    using subs inv conn routed dropped
    by (simp add: u [symmetric] unsubscribe_removes)
qed

theorem C3_unsubscribe_then_push_witness:
  \<open>fst (unsubscribe sample_layer ''/feeds/1/datastreams/2'' ''t1'' ''t2'' subscribed_client)
       = Suspended ''t1''
   \<and> subscriptionHandlers (snd (unsubscribe sample_layer ''/feeds/1/datastreams/2'' ''t1'' ''t2''
        subscribed_client)) ''t1'' = None
   \<and> invocations (events (snd (messageHandler sample_layer ''{"token":"t1","body":{"id":"5"}}''
       (snd (unsubscribe sample_layer ''/feeds/1/datastreams/2'' ''t1'' ''t2''
               subscribed_client))))) = []
   \<and> pendingResponses (snd (messageHandler sample_layer ''{"token":"t1","body":{"id":"5"}}''
       (snd (unsubscribe sample_layer ''/feeds/1/datastreams/2'' ''t1'' ''t2''
               subscribed_client)))) ''t1'' = None
   \<and> unroutable_count (events (snd (messageHandler sample_layer ''{"token":"t1","body":{"id":"5"}}''
       (snd (unsubscribe sample_layer ''/feeds/1/datastreams/2'' ''t1'' ''t2''
               (subscribed_client\<lparr>factory := clientConnectionLost (factory subscribed_client)\<rparr>))))))
       = 1\<close>
proof -
  have c: "connected (factory subscribed_client) \<and> connection (factory subscribed_client) \<noteq> None"
    by (simp add: subscribed_client_eval awaiting_client_eval connected_factory_eval)
  have n: "\<not> connected (factory (subscribed_client\<lparr>factory :=
              clientConnectionLost (factory subscribed_client)\<rparr>))
      \<and> pendingResponses (subscribed_client\<lparr>factory :=
              clientConnectionLost (factory subscribed_client)\<rparr>) ''t1'' = None"
    by (simp add: subscribed_client_eval awaiting_client_eval connected_factory_eval
          clientConnectionLost_def reconnecting_def connectionStateHandler_def factory_emit_def
          Let_def)
  have e: "invocations (events subscribed_client) = []
      \<and> unroutable_count (events subscribed_client) = 0"
    by (simp add: subscribed_client_eval)
  note A = C3_unsubscribe_then_push [of sample_layer "''/feeds/1/datastreams/2''" "''t1''" "''t2''" subscribed_client]
  note B = C3_unsubscribe_then_push [of sample_layer "''/feeds/1/datastreams/2''" "''t1''" "''t2''"
                  "subscribed_client\<lparr>factory := clientConnectionLost (factory subscribed_client)\<rparr>"]
  have 1: \<open>fst (unsubscribe sample_layer ''/feeds/1/datastreams/2'' ''t1'' ''t2'' subscribed_client)
       = Suspended ''t1''
   \<and> subscriptionHandlers (snd (unsubscribe sample_layer ''/feeds/1/datastreams/2'' ''t1'' ''t2''
        subscribed_client)) ''t1'' = None
   \<and> invocations (events (snd (messageHandler sample_layer ''{"token":"t1","body":{"id":"5"}}''
       (snd (unsubscribe sample_layer ''/feeds/1/datastreams/2'' ''t1'' ''t2''
               subscribed_client))))) = invocations (events subscribed_client)
   \<and> pendingResponses (snd (messageHandler sample_layer ''{"token":"t1","body":{"id":"5"}}''
       (snd (unsubscribe sample_layer ''/feeds/1/datastreams/2'' ''t1'' ''t2''
               subscribed_client)))) ''t1'' = None\<close>
    using A c sample_loads(3) sample_tokens(3) by blast
  have 2: \<open>unroutable_count (events (snd (messageHandler sample_layer ''{"token":"t1","body":{"id":"5"}}''
       (snd (unsubscribe sample_layer ''/feeds/1/datastreams/2'' ''t1'' ''t2''
               (subscribed_client\<lparr>factory := clientConnectionLost (factory subscribed_client)\<rparr>))))))
       = Suc (unroutable_count (events (subscribed_client\<lparr>factory :=
              clientConnectionLost (factory subscribed_client)\<rparr>)))\<close>
    using B n sample_loads(3) sample_tokens(3) by blast
  show ?thesis
    using 1 2 e by simp
qed

theorem C3_unsubscribe_then_push_counterexample:
  \<open>unroutable_count (events (snd (messageHandler sample_layer ''{"token":"t1","body":{"id":"5"}}''
       (snd (unsubscribe sample_layer ''/feeds/1/datastreams/2'' ''t1'' ''t2''
               subscribed_client))))) = 0
   \<and> resolutions (events (snd (messageHandler sample_layer ''{"token":"t1","body":{"id":"5"}}''
       (snd (unsubscribe sample_layer ''/feeds/1/datastreams/2'' ''t1'' ''t2''
               subscribed_client)))))
       = [(''t1'', JObject [(''token'', JString ''t1''), (''status'', JNumber 200)]),
          (''t1'', JObject [(''token'', JString ''t1''),
                            (''body'', JObject [(''id'', JString ''5'')])])]\<close>
  unfolding unsubscribed_eval snd_conv
  by (simp add: subscribed_client_eval messageHandler_def sample_loads
        Let_def emit_def callback_def continue_def paws_getResponseCodeStatusFromHeader_def)

subsection \<open>The two tables\<close>

lemma disjoint_tables:
  "dom m \<inter> dom n = {} \<longleftrightarrow> (\<forall>x. m x = None \<or> n x = None)"
proof
  assume d: "dom m \<inter> dom n = {}"
  show "\<forall>x. m x = None \<or> n x = None"
  proof
    fix x
    from d have "x \<notin> dom m \<or> x \<notin> dom n" by blast
    then show "m x = None \<or> n x = None" by (simp add: domIff)
  qed
next
  assume a: "\<forall>x. m x = None \<or> n x = None"
  have "x \<notin> dom m \<inter> dom n" for x
    using a [rule_format, of x] by (auto simp: domIff)
  then show "dom m \<inter> dom n = {}" by blast
qed

lemma disjoint_add_pending:
  fixes p :: "'a \<rightharpoonup> 'b" and q :: "'a \<rightharpoonup> 'c"
  assumes "\<forall>x. p x = None \<or> q x = None" and "q t = None" and "p' = p \<or> p' = p(t \<mapsto> w)"
  shows "\<forall>x. p' x = None \<or> q x = None"
proof
  fix x
  show "p' x = None \<or> q x = None"
    using assms(1) [rule_format, of x] assms(2,3) by (cases "x = t") auto
qed

lemma disjoint_remove_pending:
  fixes p :: "'a \<rightharpoonup> 'b" and q :: "'a \<rightharpoonup> 'c"
  assumes "\<forall>x. p x = None \<or> q x = None" and "p' = p(t := None)"
    and "q' = q \<or> (\<exists>hk. q' = q(t \<mapsto> hk))"
  shows "\<forall>x. p' x = None \<or> q' x = None"
proof
  fix x
  show "p' x = None \<or> q' x = None"
    using assms(1) [rule_format, of x] assms(2,3) by (cases "x = t") auto
qed

lemma reachable_disjoint:
  "reachable L s \<Longrightarrow> dom (pendingResponses s) \<inter> dom (subscriptionHandlers s) = {}"
  unfolding disjoint_tables
proof (induction rule: reachable.induct)
  case (init key)
  show ?case by (simp add: client_init_def)
next
  case (transport s f)
  then show ?case by simp
next
  case (request s fresh w m kind_of_request resource body)
  obtain out s' where y: "yield_request L w kind_of_request resource body None fresh s = (out, s')"
    by (cases "yield_request L w kind_of_request resource body None fresh s")
  from request.hyps(2) have f: "subscriptionHandlers s fresh = None"
    by (cases "subscriptionHandlers s fresh") (auto simp: domIff)
  have "\<forall>x. pendingResponses s' x = None \<or> subscriptionHandlers s x = None"
    using request.IH f yield_request_observed(5) [OF y, simplified]
    by (rule disjoint_add_pending [of "pendingResponses s" _ fresh _ w])
  then show ?case
    by (simp add: y yield_request_observed(1) [OF y])
next
  case (subscribing s fresh resource h)
  let ?k = "if contains ''datastreams'' resource then Datastream else Environment"
  obtain out s' where y: "yield_request L (AwaitSubscribe h ?k) ''subscribe'' resource None
      (Some fresh) fresh s = (out, s')"
    by (cases "yield_request L (AwaitSubscribe h ?k) ''subscribe'' resource None
      (Some fresh) fresh s")
  from subscribing.hyps(2) have f: "subscriptionHandlers s fresh = None"
    by (cases "subscriptionHandlers s fresh") (auto simp: domIff)
  have "\<forall>x. pendingResponses s' x = None \<or> subscriptionHandlers s x = None"
    using subscribing.IH f yield_request_observed(5) [OF y, simplified]
    by (rule disjoint_add_pending [of "pendingResponses s" _ fresh _ "AwaitSubscribe h ?k"])
  then show ?case
    by (simp add: subscribe_def y yield_request_observed(1) [OF y] del: contains.simps)
next
  case (unsubscribing s resource token fresh)
  let ?s0 = "s\<lparr>subscriptionHandlers := (subscriptionHandlers s)(token := None)\<rparr>"
  obtain out s' where y: "yield_request L AwaitStatus ''unsubscribe'' resource None
      (Some token) fresh ?s0 = (out, s')"
    by (cases "yield_request L AwaitStatus ''unsubscribe'' resource None (Some token) fresh ?s0")
  have i: "\<forall>x. pendingResponses s x = None \<or> subscriptionHandlers ?s0 x = None"
    using unsubscribing.IH by simp
  have f: "subscriptionHandlers ?s0 token = None"
    by simp
  have "\<forall>x. pendingResponses s' x = None \<or> subscriptionHandlers ?s0 x = None"
    using i f yield_request_observed(5) [OF y, simplified]
    by (rule disjoint_add_pending [of "pendingResponses s" _ token _ AwaitStatus])
  then show ?case
    by (simp add: unsubscribe_removes y yield_request_observed(1) [OF y])
next
  case (message s msg)
  from messageHandler_tables [of L msg s]
  consider
    (same) "pendingResponses (snd (messageHandler L msg s)) = pendingResponses s"
      "subscriptionHandlers (snd (messageHandler L msg s)) = subscriptionHandlers s"
  | (resolved) t where
      "pendingResponses (snd (messageHandler L msg s)) = (pendingResponses s)(t := None)"
      "subscriptionHandlers (snd (messageHandler L msg s)) = subscriptionHandlers s
         \<or> (\<exists>hk. subscriptionHandlers (snd (messageHandler L msg s))
                    = (subscriptionHandlers s)(t \<mapsto> hk))"
    by blast
  then show ?case
  proof cases
    case same
    with message.IH show ?thesis by simp
  next
    case resolved
    with message.IH show ?thesis
      by (rule disjoint_remove_pending)
  qed
qed

text \<open>
  Claim C4. In every state a client reaches between operations, no token is in both
  \<^verbatim>\<open>pendingResponses\<close> and \<^verbatim>\<open>subscriptionHandlers\<close>. When the acknowledgement of a
  \<^verbatim>\<open>subscribe\<close> (a message with the subscription's token and a status) is processed,
  the token is in both tables after \<^verbatim>\<open>callback\<close> has stored the handler and before the
  pending entry is deleted; when the handler returns the token is absent from
  \<^verbatim>\<open>pendingResponses\<close>, bound to the handler in \<^verbatim>\<open>subscriptionHandlers\<close>, and the
  tables are disjoint again.
\<close>

theorem C4_tables_disjoint:
  assumes "reachable L s"
  shows "dom (pendingResponses s) \<inter> dom (subscriptionHandlers s) = {}
     \<and> (\<forall>t h k msg data st.
           pendingResponses s t = Some (AwaitSubscribe h k) \<and> loads L msg = Inr data
           \<and> getitem data ''token'' = Inr (JString t) \<and> getitem data ''status'' = Inr st \<longrightarrow>
           (let mid = callback L (AwaitSubscribe h k) t data
                        (emit (ClientLog DEBUG
                                 ''PAWSClient has received a message:\<newline>%s\<newline>'') s);
                s' = snd (messageHandler L msg s)
            in t \<in> dom (pendingResponses mid) \<and> t \<in> dom (subscriptionHandlers mid)
               \<and> s' = mid\<lparr>pendingResponses := (pendingResponses mid)(t := None)\<rparr>
               \<and> pendingResponses s' t = None
               \<and> subscriptionHandlers s' t = Some (h, k)
               \<and> dom (pendingResponses s') \<inter> dom (subscriptionHandlers s') = {}))"
proof (intro conjI allI impI)
  show "dom (pendingResponses s) \<inter> dom (subscriptionHandlers s) = {}"
    using assms by (rule reachable_disjoint)
next
  fix t h k msg data st
  assume a: "pendingResponses s t = Some (AwaitSubscribe h k) \<and> loads L msg = Inr data
           \<and> getitem data ''token'' = Inr (JString t) \<and> getitem data ''status'' = Inr st"
  then have a1: "pendingResponses s t = Some (AwaitSubscribe h k)"
    and a2: "loads L msg = Inr data"
    and a3: "getitem data ''token'' = Inr (JString t)"
    and a4: "getitem data ''status'' = Inr st"
    by simp_all
  let ?s1 = "emit (ClientLog DEBUG ''PAWSClient has received a message:\<newline>%s\<newline>'') s"
  let ?mid = "callback L (AwaitSubscribe h k) t data ?s1"
  have m: "messageHandler L msg s
      = (None, ?mid\<lparr>pendingResponses := (pendingResponses ?mid)(t := None)\<rparr>)"
    by (rule messageHandler_pending [OF a2 a3 a1])
  have p: "pendingResponses ?mid = pendingResponses s"
    by (simp add: callback_observed(1)) (simp add: emit_def)
  have q: "subscriptionHandlers ?mid = (subscriptionHandlers s)(t \<mapsto> (h, k))"
    by (simp add: callback_subscribe(1) [OF a4]) (simp add: emit_def)
  have r: "reachable L (snd (messageHandler L msg s))"
    using assms by (rule reachable.message)
  have d: "dom (pendingResponses (snd (messageHandler L msg s)))
      \<inter> dom (subscriptionHandlers (snd (messageHandler L msg s))) = {}"
    using r by (rule reachable_disjoint)
  have 1: "t \<in> dom (pendingResponses ?mid)"
    using a1 by (simp add: p dom_def)
  have 2: "t \<in> dom (subscriptionHandlers ?mid)"
    by (simp add: q)
  have 3: "pendingResponses (snd (messageHandler L msg s)) t = None"
    by (simp add: m)
  have 4: "subscriptionHandlers (snd (messageHandler L msg s)) t = Some (h, k)"
    by (simp add: m q)
  have 5: "snd (messageHandler L msg s) = ?mid\<lparr>pendingResponses := (pendingResponses ?mid)(t := None)\<rparr>"
    by (simp add: m)
  show "let mid = ?mid; s' = snd (messageHandler L msg s)
        in t \<in> dom (pendingResponses mid) \<and> t \<in> dom (subscriptionHandlers mid)
           \<and> s' = mid\<lparr>pendingResponses := (pendingResponses mid)(t := None)\<rparr>
           \<and> pendingResponses s' t = None
           \<and> subscriptionHandlers s' t = Some (h, k)
           \<and> dom (pendingResponses s') \<inter> dom (subscriptionHandlers s') = {}"
    unfolding Let_def using 1 2 3 4 5 d by blast
qed

theorem C4_tables_disjoint_witness:
  \<open>dom (pendingResponses awaiting_client) \<inter> dom (subscriptionHandlers awaiting_client) = {}
   \<and> pendingResponses awaiting_client ''t1'' = Some (AwaitSubscribe 7 Datastream)
   \<and> pendingResponses (snd (messageHandler sample_layer ''{"token":"t1","status":200}''
        awaiting_client)) ''t1'' = None
   \<and> subscriptionHandlers (snd (messageHandler sample_layer ''{"token":"t1","status":200}''
        awaiting_client)) ''t1'' = Some (7, Datastream)\<close>
proof -
  have a: "pendingResponses awaiting_client ''t1'' = Some (AwaitSubscribe 7 Datastream)"
    by (simp add: awaiting_client_eval)
  have s: "getitem (JObject [(''token'', JString ''t1''), (''status'', JNumber 200)]) ''status''
      = Inr (JNumber 200)"
    by simp
  show ?thesis
    using C4_tables_disjoint [OF awaiting_client_reachable] a sample_loads(1) sample_tokens(1) s
    unfolding Let_def by blast
qed

subsection \<open>Subscribing\<close>

text \<open>
  Claim C6, as the code has it. \<^verbatim>\<open>subscribe(resource, handler)\<close> on a connected client
  sends the request and waits under the generated token, with the data structure class
  \<open>Datastream\<close> when \<^verbatim>\<open>'datastreams'\<close> occurs in the resource and \<open>Environment\<close>
  otherwise; no subscription entry exists yet. On a client that is not connected it
  fails and stores nothing. When the acknowledgement (a message with that token and a
  status) is processed, the entry binding the token to the handler and the class is
  stored whatever the status is, and the operation returns the token with the flag
  \<open>status = 200\<close>: an unsuccessful acknowledgement stores the entry too.
\<close>

theorem C6_subscribe_registers:
  "(connected (factory s) \<and> connection (factory s) \<noteq> None \<longrightarrow>
      fst (subscribe L resource h fresh s) = Suspended fresh
      \<and> pendingResponses (snd (subscribe L resource h fresh s)) fresh
          = Some (AwaitSubscribe h
                    (if contains ''datastreams'' resource then Datastream else Environment))
      \<and> subscriptionHandlers (snd (subscribe L resource h fresh s)) = subscriptionHandlers s)
   \<and> (\<not> connected (factory s) \<longrightarrow>
      fst (subscribe L resource h fresh s) = Done (Inl TypeError)
      \<and> pendingResponses (snd (subscribe L resource h fresh s)) = pendingResponses s
      \<and> subscriptionHandlers (snd (subscribe L resource h fresh s)) = subscriptionHandlers s)
   \<and> (\<forall>t k msg data st.
         pendingResponses s t = Some (AwaitSubscribe h k) \<and> loads L msg = Inr data
         \<and> getitem data ''token'' = Inr (JString t) \<and> getitem data ''status'' = Inr st \<longrightarrow>
         subscriptionHandlers (snd (messageHandler L msg s))
           = (subscriptionHandlers s)(t \<mapsto> (h, k))
         \<and> events (snd (messageHandler L msg s))
           = events s
             @ [ClientLog DEBUG ''PAWSClient has received a message:\<newline>%s\<newline>'',
                Callback t data]
             @ (if st = JNumber 200 then []
                else [ClientLog ERROR ''Expected status response code 200, received %s''])
             @ [Finished t (Inr (Token_Status t (st = JNumber 200)))])"
proof (intro conjI allI impI)
  let ?k = "if contains ''datastreams'' resource then Datastream else Environment"
  {
    assume c: "connected (factory s) \<and> connection (factory s) \<noteq> None"
    then obtain proto where p: "connection (factory s) = Some proto" and c1: "connected (factory s)"
      by auto
    have e: "subscribe L resource h fresh s =
       (Suspended fresh,
        s\<lparr>events := events s @ [ClientLog DEBUG ''About to send:\<newline>%s\<newline>''],
          factory := factory_emit
            (Write (envelope (api_key s) ''subscribe'' resource None None fresh)) (factory s),
          pendingResponses := (pendingResponses s)(fresh \<mapsto> AwaitSubscribe h ?k)\<rparr>)"
      unfolding subscribe_def Let_def by (rule yield_request_connected [OF c1 p])
    show "fst (subscribe L resource h fresh s) = Suspended fresh"
      by (simp only: e fst_conv)
    show "pendingResponses (snd (subscribe L resource h fresh s)) fresh = Some (AwaitSubscribe h ?k)"
      by (simp only: e snd_conv) simp
    show "subscriptionHandlers (snd (subscribe L resource h fresh s)) = subscriptionHandlers s"
      by (simp only: e snd_conv) simp
  }
  {
    assume n: "\<not> connected (factory s)"
    have e: "subscribe L resource h fresh s =
       (Done (Inl TypeError),
        s\<lparr>events := events s @ [ClientLog DEBUG ''About to send:\<newline>%s\<newline>'',
                                 ClientLog ERROR ''Send failed, no connection exists'']\<rparr>)"
      unfolding subscribe_def Let_def by (rule yield_request_not_connected [OF n])
    show "fst (subscribe L resource h fresh s) = Done (Inl TypeError)"
      by (simp only: e fst_conv)
    show "pendingResponses (snd (subscribe L resource h fresh s)) = pendingResponses s"
      by (simp only: e snd_conv) simp
    show "subscriptionHandlers (snd (subscribe L resource h fresh s)) = subscriptionHandlers s"
      by (simp only: e snd_conv) simp
  }
  {
    fix t k msg data st
    assume a: "pendingResponses s t = Some (AwaitSubscribe h k) \<and> loads L msg = Inr data
         \<and> getitem data ''token'' = Inr (JString t) \<and> getitem data ''status'' = Inr st"
    then have a1: "pendingResponses s t = Some (AwaitSubscribe h k)"
      and a2: "loads L msg = Inr data"
      and a3: "getitem data ''token'' = Inr (JString t)"
      and a4: "getitem data ''status'' = Inr st"
      by simp_all
    note m = messageHandler_pending [OF a2 a3 a1]
    show "subscriptionHandlers (snd (messageHandler L msg s))
           = (subscriptionHandlers s)(t \<mapsto> (h, k))"
      by (simp add: m callback_subscribe(1) [OF a4]) (simp add: emit_def)
    show "events (snd (messageHandler L msg s))
           = events s
             @ [ClientLog DEBUG ''PAWSClient has received a message:\<newline>%s\<newline>'',
                Callback t data]
             @ (if st = JNumber 200 then []
                else [ClientLog ERROR ''Expected status response code 200, received %s''])
             @ [Finished t (Inr (Token_Status t (st = JNumber 200)))]"
      by (simp add: m callback_subscribe(2) [OF a4]) (simp add: emit_def)
  }
qed

theorem C6_subscribe_registers_witness:
  \<open>fst (subscribe sample_layer ''/feeds/1/datastreams/2'' 7 ''t1''
          (connected_client (Some ''key''))) = Suspended ''t1''
   \<and> pendingResponses (snd (subscribe sample_layer ''/feeds/1/datastreams/2'' 7 ''t1''
          (connected_client (Some ''key'')))) ''t1'' = Some (AwaitSubscribe 7 Datastream)
   \<and> pendingResponses (snd (subscribe sample_layer ''/feeds/1'' 7 ''t1''
          (connected_client (Some ''key'')))) ''t1'' = Some (AwaitSubscribe 7 Environment)
   \<and> fst (subscribe sample_layer ''/feeds/1'' 7 ''t1'' (client_init (Some ''key'')))
       = Done (Inl TypeError)
   \<and> subscriptionHandlers (snd (messageHandler sample_layer ''{"token":"t1","status":200}''
        awaiting_client)) ''t1'' = Some (7, Datastream)
   \<and> events (snd (messageHandler sample_layer ''{"token":"t1","status":200}'' awaiting_client))
       = [ClientLog DEBUG ''About to send:\<newline>%s\<newline>'',
          ClientLog DEBUG ''PAWSClient has received a message:\<newline>%s\<newline>'',
          Callback ''t1'' (JObject [(''token'', JString ''t1''), (''status'', JNumber 200)]),
          Finished ''t1'' (Inr (Token_Status ''t1'' True))]\<close>
proof -
  have c: "connected (factory (connected_client (Some ''key'')
              :: (kind \<times> (string \<times> json) list) PAWSClient))
      \<and> connection (factory (connected_client (Some ''key'')
              :: (kind \<times> (string \<times> json) list) PAWSClient)) \<noteq> None"
    by (simp add: connected_client_def connected_factory_eval)
  have n: "\<not> connected (factory (client_init (Some ''key'')
              :: (kind \<times> (string \<times> json) list) PAWSClient))"
    by (simp add: client_init_def factory_init_def)
  have a: "pendingResponses awaiting_client ''t1'' = Some (AwaitSubscribe 7 Datastream)"
    by (simp add: awaiting_client_eval)
  have s: "getitem (JObject [(''token'', JString ''t1''), (''status'', JNumber 200)]) ''status''
      = Inr (JNumber 200)"
    by simp
  have d: "contains ''datastreams'' ''/feeds/1/datastreams/2''"
    "\<not> contains ''datastreams'' ''/feeds/1''"
    by simp_all
  note A = C6_subscribe_registers [of "connected_client (Some ''key'')" sample_layer "''/feeds/1/datastreams/2''" 7
                  "''t1''"]
  note B = C6_subscribe_registers [of "connected_client (Some ''key'')" sample_layer "''/feeds/1''" 7 "''t1''"]
  note C = C6_subscribe_registers [of "client_init (Some ''key'')" sample_layer "''/feeds/1''" 7 "''t1''"]
  note D = C6_subscribe_registers [of awaiting_client sample_layer "''/feeds/1''" 7 "''t1''"]
  have 1: \<open>fst (subscribe sample_layer ''/feeds/1/datastreams/2'' 7 ''t1''
          (connected_client (Some ''key''))) = Suspended ''t1''
   \<and> pendingResponses (snd (subscribe sample_layer ''/feeds/1/datastreams/2'' 7 ''t1''
          (connected_client (Some ''key'')))) ''t1'' = Some (AwaitSubscribe 7 Datastream)\<close>
    using A c d(1) by (simp del: contains.simps)
  have 2: \<open>pendingResponses (snd (subscribe sample_layer ''/feeds/1'' 7 ''t1''
          (connected_client (Some ''key'')))) ''t1'' = Some (AwaitSubscribe 7 Environment)\<close>
    using B c d(2) by (simp del: contains.simps)
  have 3: \<open>fst (subscribe sample_layer ''/feeds/1'' 7 ''t1'' (client_init (Some ''key'')))
       = Done (Inl TypeError)\<close>
    using C n by (simp del: contains.simps)
  have 4: \<open>subscriptionHandlers (snd (messageHandler sample_layer ''{"token":"t1","status":200}''
        awaiting_client)) = (subscriptionHandlers awaiting_client)(''t1'' \<mapsto> (7, Datastream))
   \<and> events (snd (messageHandler sample_layer ''{"token":"t1","status":200}'' awaiting_client))
       = events awaiting_client
         @ [ClientLog DEBUG ''PAWSClient has received a message:\<newline>%s\<newline>'',
            Callback ''t1'' (JObject [(''token'', JString ''t1''), (''status'', JNumber 200)])]
         @ (if JNumber 200 = JNumber 200 then []
            else [ClientLog ERROR ''Expected status response code 200, received %s''])
         @ [Finished ''t1'' (Inr (Token_Status ''t1'' (JNumber 200 = JNumber 200)))]\<close>
    using D a sample_loads(1) sample_tokens(1) s by blast
  show ?thesis
    using 1 2 3 4 by (simp add: awaiting_client_eval)
qed

theorem C6_subscribe_registers_counterexample:
  \<open>subscriptionHandlers (snd (messageHandler sample_layer ''{"token":"t1","status":404}''
      awaiting_client)) ''t1'' = Some (7, Datastream)
   \<and> last (events (snd (messageHandler sample_layer ''{"token":"t1","status":404}''
      awaiting_client))) = Finished ''t1'' (Inr (Token_Status ''t1'' False))\<close>
  by (simp add: awaiting_client_eval messageHandler_def sample_loads
        Let_def emit_def callback_def continue_def paws_getResponseCodeStatusFromHeader_def)

subsection \<open>The HTTP request tables\<close>

lemma in_flight_eval:
  "in_flight =
     \<lparr>pendingRequests = [''r1'' \<mapsto> RequestDeferred ''r1''],
      httpPendingResponses = [''r1'' \<mapsto> ResponseDeferred ''r1''],
      pendingTimeouts = [''r1'' \<mapsto> DelayedCall ''r1''],
      http_events =
        [HttpLog DEBUG ''method=%s, url=%s, headers=%s, bodyLength=%s'',
         AgentRequest ''GET'' ''https://api.cosm.com/v2/keys.json'',
         AddCallback (RequestDeferred ''r1''), AddErrback (RequestDeferred ''r1''),
         CallLater ''r1'']\<rparr>"
  by (simp add: in_flight_def http_sendRequest_def http_init_def http_emit_def Let_def)

text \<open>
  Claim C1, as the code has it. When the deadline timer of a request in flight fires (the
  request has its entry in each of the three tables), \<^verbatim>\<open>_handle_request_timeout\<close> logs
  the timeout, removes the request's entry from \<^verbatim>\<open>pendingTimeouts\<close>, adds the errback
  that swallows the cancellation to the request's \<^verbatim>\<open>Deferred\<close> and cancels it, and fires
  the caller's \<^verbatim>\<open>Deferred\<close> with \<^verbatim>\<open>None\<close>, in this order, raising nothing.
  \<^verbatim>\<open>None\<close> is the only failure value: a request whose connection failed reaches the
  caller through this same handler, with the same result.
\<close>

theorem C1_timeout_fires:
  assumes "pendingTimeouts s request_id = Some timeout"
    and "pendingRequests s request_id = Some request_d"
    and "httpPendingResponses s request_id = Some response_d"
  shows "fst (handle_request_timeout request_id url s) = None
     \<and> pendingTimeouts (snd (handle_request_timeout request_id url s))
         = (pendingTimeouts s)(request_id := None)
     \<and> http_events (snd (handle_request_timeout request_id url s))
         = http_events s
           @ [HttpLog ERROR ''Request timeout: %s'', AddErrback request_d,
              CancelDeferred request_d, Resolve response_d None]
     \<and> handle_request_timeout request_id url (snd (request_errback ConnectError s))
         = handle_request_timeout request_id url s"
  using assms
  by (simp add: handle_request_timeout_def http_emit_def Let_def request_errback_def)

theorem C1_timeout_fires_witness:
  "fst (handle_request_timeout ''r1'' ''https://api.cosm.com/v2/keys.json'' in_flight) = None
   \<and> pendingTimeouts (snd (handle_request_timeout ''r1'' ''https://api.cosm.com/v2/keys.json''
        in_flight)) ''r1'' = None
   \<and> http_events (snd (handle_request_timeout ''r1'' ''https://api.cosm.com/v2/keys.json''
        in_flight))
       = http_events in_flight
         @ [HttpLog ERROR ''Request timeout: %s'', AddErrback (RequestDeferred ''r1''),
            CancelDeferred (RequestDeferred ''r1''), Resolve (ResponseDeferred ''r1'') None]"
proof -
  have a: "pendingTimeouts in_flight ''r1'' = Some (DelayedCall ''r1'')"
    "pendingRequests in_flight ''r1'' = Some (RequestDeferred ''r1'')"
    "httpPendingResponses in_flight ''r1'' = Some (ResponseDeferred ''r1'')"
    by (simp_all add: in_flight_eval)
  show ?thesis
    using C1_timeout_fires [OF a, of "''https://api.cosm.com/v2/keys.json''"]
    by (simp add: in_flight_eval)
qed

theorem C1_timeout_fires_counterexample:
  "pendingRequests (snd (handle_request_timeout ''r1'' ''https://api.cosm.com/v2/keys.json''
      in_flight)) ''r1'' = Some (RequestDeferred ''r1'')
   \<and> httpPendingResponses (snd (handle_request_timeout ''r1''
      ''https://api.cosm.com/v2/keys.json'' in_flight)) ''r1'' = Some (ResponseDeferred ''r1'')
   \<and> last (http_events (snd (handle_request_timeout ''r1''
      ''https://api.cosm.com/v2/keys.json'' in_flight))) = Resolve (ResponseDeferred ''r1'') None
   \<and> last (http_events (snd (handle_request_timeout ''r1''
      ''https://api.cosm.com/v2/keys.json'' (snd (request_errback ConnectError in_flight)))))
       = Resolve (ResponseDeferred ''r1'') None"
  by (simp add: in_flight_eval handle_request_timeout_def http_emit_def Let_def
        request_errback_def)

text \<open>
  Claim C9 at a request in flight whose response arrives. \<^verbatim>\<open>_handle_response\<close> cancels
  the timer before it fires the caller's \<^verbatim>\<open>Deferred\<close> with the response and the body, and
  removes the request from \<^verbatim>\<open>pendingRequests\<close> and from the caller's table; the
  cancelled timer stays in \<^verbatim>\<open>pendingTimeouts\<close>.
\<close>

theorem C9_response_keeps_timeout_entry:
  "fst (handle_response \<lparr>code = 200, phrase = ''OK'', headers = []\<rparr> ''[]'' ''r1''
         ''https://api.cosm.com/v2/keys.json'' in_flight) = None
   \<and> pendingTimeouts (snd (handle_response \<lparr>code = 200, phrase = ''OK'', headers = []\<rparr> ''[]''
         ''r1'' ''https://api.cosm.com/v2/keys.json'' in_flight)) ''r1''
       = Some (DelayedCall ''r1'')
   \<and> pendingRequests (snd (handle_response \<lparr>code = 200, phrase = ''OK'', headers = []\<rparr> ''[]''
         ''r1'' ''https://api.cosm.com/v2/keys.json'' in_flight)) ''r1'' = None
   \<and> httpPendingResponses (snd (handle_response \<lparr>code = 200, phrase = ''OK'', headers = []\<rparr>
         ''[]'' ''r1'' ''https://api.cosm.com/v2/keys.json'' in_flight)) ''r1'' = None
   \<and> http_events (snd (handle_response \<lparr>code = 200, phrase = ''OK'', headers = []\<rparr> ''[]''
         ''r1'' ''https://api.cosm.com/v2/keys.json'' in_flight))
       = http_events in_flight
         @ [CancelCall (DelayedCall ''r1''),
            HttpLog DEBUG ''Success communicating with url: %s'', DeliverBody,
            HttpLog DEBUG ''%s'',
            Resolve (ResponseDeferred ''r1'')
              (Some (\<lparr>code = 200, phrase = ''OK'', headers = []\<rparr>, ''[]''))]"
  by (simp add: in_flight_eval handle_response_def handle_response_begin_def
        handle_response_end_def http_emit_def Let_def)

subsection \<open>Status codes\<close>

lemma map_of_py_in: "py_in k (JObject kvs) = Inr (map_of kvs k \<noteq> None)"
  by (simp add: map_of_eq_None_iff)

lemma hasHeader_getRawHeaders: "hasHeader name hs \<longleftrightarrow> getRawHeaders name hs \<noteq> None"
  by (simp add: hasHeader_def getRawHeaders_def split: list.splits)

lemma http_unexpected_status:
  assumes "code r \<noteq> expected_code op"
  shows "(\<exists>msg. fst (http_after_yield convert format op (Some (r, b))) = [(ERROR, msg)])
     \<and> (snd (http_after_yield convert format op (Some (r, b))) = Inr HNone
        \<or> snd (http_after_yield convert format op (Some (r, b))) = Inr (HBool False))"
  using assms
  by (cases op)
     (simp_all add: expected_code_def reads_location_def http_read_def http_create_def
        http_status_def http_read_datastream_def http_read_datapoint_def
        http_getResponseCodeStatusFromHeader_def)

lemma http_create_raises:
  assumes "code r = 201"
  shows "(\<exists>e. snd (http_create unexpected failed (Some (r, b))) = Inl e)
     \<longleftrightarrow> (getRawHeaders ''Location'' (headers r) = None
          \<or> getRawHeaders ''Location'' (headers r) = Some [])"
  using assms
  by (auto simp: http_create_def http_getLocationFromHeader_def hasHeader_getRawHeaders
        split: option.splits list.splits)

lemma http_missing_location:
  assumes "reads_location op" and "code r = 201"
  shows "(\<exists>e. snd (http_after_yield convert format op (Some (r, b))) = Inl e)
     \<longleftrightarrow> (getRawHeaders ''Location'' (headers r) = None
          \<or> getRawHeaders ''Location'' (headers r) = Some [])"
proof -
  from assms(1) consider "op = HTTP_create_feed" | "op = HTTP_create_datastream"
    | "op = HTTP_create_trigger" | "op = HTTP_create_user" | "op = HTTP_create_api_key"
    by (auto simp: reads_location_def)
  then show ?thesis
    by cases (simp_all only: http_after_yield.simps http_create_raises [OF assms(2)])
qed

lemma paws_start_pending:
  assumes "connected (factory s)" and "connection (factory s) = Some proto"
  shows "pendingResponses (snd (paws_start L pop fresh s)) (awaited_token pop fresh)
           = Some (awaits pop)"
proof (cases pop)
  case (PAWS_unsubscribe resource token)
  let ?s0 = "s\<lparr>subscriptionHandlers := (subscriptionHandlers s)(token := None)\<rparr>"
  have "connected (factory ?s0)" and "connection (factory ?s0) = Some proto"
    using assms by simp_all
  then show ?thesis
    by (simp add: PAWS_unsubscribe unsubscribe_removes yield_request_connected)
next
  case (PAWS_subscribe resource subscriptionHandler)
  then show ?thesis
    using assms by (simp add: subscribe_def yield_request_connected del: contains.simps)
qed (use assms in \<open>simp_all add: list_feeds_def create_feed_def read_feed_def update_feed_def
      delete_feed_def create_datastream_def read_datastream_def update_datastream_def
      delete_datastream_def yield_request_def sendRequest_connected\<close>)

text \<open>
  Claim C10, as the code has it. Every \<^verbatim>\<open>HTTPClient\<close> operation that receives a
  response whose status code is not the one it expects logs one error and returns
  \<^verbatim>\<open>None\<close> or \<^verbatim>\<open>False\<close>; it raises nothing. The five operations that read the
  \<^verbatim>\<open>Location\<close> header raise on a 201 response exactly when the response has no
  \<^verbatim>\<open>Location\<close> value (the name taken without regard to case). Every
  \<^verbatim>\<open>PAWSClient\<close> operation, once sent, waits with the rest of its body (\<open>awaits\<close>):
  the operations that return a status log an error and return \<^verbatim>\<open>False\<close>, and so does
  \<^verbatim>\<open>subscribe\<close> beside its token; the create operations raise on every status other
  than 201, as well as on a 201 without a \<^verbatim>\<open>LOCATION\<close> header; the list and read
  operations do not look at the status.
\<close>

theorem C10_unexpected_status:
  fixes L :: "'d data_layer" and convert :: "string \<Rightarrow> string \<Rightarrow> string \<Rightarrow> py_error + 'd"
  shows
  "(code r \<noteq> expected_code op \<longrightarrow>
      (\<exists>msg. fst (http_after_yield convert format op (Some (r, b))) = [(ERROR, msg)])
      \<and> (snd (http_after_yield convert format op (Some (r, b))) = Inr HNone
         \<or> snd (http_after_yield convert format op (Some (r, b))) = Inr (HBool False)))
   \<and> (reads_location op \<and> code r = 201 \<longrightarrow>
      ((\<exists>e. snd (http_after_yield convert format op (Some (r, b))) = Inl e)
        \<longleftrightarrow> (getRawHeaders ''Location'' (headers r) = None
             \<or> getRawHeaders ''Location'' (headers r) = Some [])))
   \<and> (connected (factory s) \<and> connection (factory s) \<noteq> None \<longrightarrow>
      pendingResponses (snd (paws_start L pop fresh s)) (awaited_token pop fresh)
        = Some (awaits pop))
   \<and> (awaits pop = AwaitStatus \<and> getitem response ''status'' = Inr st \<and> st \<noteq> JNumber 200
       \<longrightarrow>
      continue L (awaits pop) t response s
        = (Inr (Status False),
           emit (ClientLog ERROR ''Expected status response code 200, received %s'') s))
   \<and> (awaits pop = AwaitSubscribe h k \<and> getitem response ''status'' = Inr st
       \<and> st \<noteq> JNumber 200 \<longrightarrow>
      fst (continue L (awaits pop) t response s) = Inr (Token_Status t False)
      \<and> events (snd (continue L (awaits pop) t response s))
          = events s @ [ClientLog ERROR ''Expected status response code 200, received %s''])
   \<and> (awaits pop = AwaitLocation \<and> getitem response ''status'' = Inr st \<and> st \<noteq> JNumber 201
       \<longrightarrow>
      continue L (awaits pop) t response s
        = (Inl (Exception ''Unexpected response. Expected 201 but got => %s''),
           emit (ClientLog ERROR ''Unexpected response. Expected 201 but got => %s'') s))
   \<and> (awaits pop = AwaitLocation \<and> getitem response ''status'' = Inr (JNumber 201)
       \<and> getitem response ''headers'' = Inr (JObject hs) \<and> map_of hs ''LOCATION'' = None \<longrightarrow>
      continue L (awaits pop) t response s
        = (Inl (Exception ''No response header 'Location' field found''),
           emit (ClientLog ERROR ''No response header 'Location' field found'') s))
   \<and> (awaits pop = AwaitBody m \<and> getitem response ''body'' = Inr body \<longrightarrow>
      continue L (awaits pop) t response s
        = (case convertToCosmStructure L m body of
             Inl e \<Rightarrow> Inl e
           | Inr dataStructure \<Rightarrow> Inr (Structure dataStructure), s))"
proof (intro conjI impI)
  show "\<exists>msg. fst (http_after_yield convert format op (Some (r, b))) = [(ERROR, msg)]"
    if "code r \<noteq> expected_code op"
    using http_unexpected_status [OF that] by blast
  show "snd (http_after_yield convert format op (Some (r, b))) = Inr HNone
         \<or> snd (http_after_yield convert format op (Some (r, b))) = Inr (HBool False)"
    if "code r \<noteq> expected_code op"
    using http_unexpected_status [OF that] by blast
  show "(\<exists>e. snd (http_after_yield convert format op (Some (r, b))) = Inl e)
        \<longleftrightarrow> (getRawHeaders ''Location'' (headers r) = None
             \<or> getRawHeaders ''Location'' (headers r) = Some [])"
    if "reads_location op \<and> code r = 201"
    using that http_missing_location by blast
  show "pendingResponses (snd (paws_start L pop fresh s)) (awaited_token pop fresh)
        = Some (awaits pop)"
    if "connected (factory s) \<and> connection (factory s) \<noteq> None"
  proof -
    from that obtain proto where "connection (factory s) = Some proto"
      by auto
    with that show ?thesis
      by (simp add: paws_start_pending)
  qed
  show "continue L (awaits pop) t response s
        = (Inr (Status False),
           emit (ClientLog ERROR ''Expected status response code 200, received %s'') s)"
    if "awaits pop = AwaitStatus \<and> getitem response ''status'' = Inr st \<and> st \<noteq> JNumber 200"
    using that by (simp add: continue_def paws_getResponseCodeStatusFromHeader_def)
  show "fst (continue L (awaits pop) t response s) = Inr (Token_Status t False)"
    if "awaits pop = AwaitSubscribe h k \<and> getitem response ''status'' = Inr st
       \<and> st \<noteq> JNumber 200"
    using that by (simp add: continue_def paws_getResponseCodeStatusFromHeader_def)
  show "events (snd (continue L (awaits pop) t response s))
          = events s @ [ClientLog ERROR ''Expected status response code 200, received %s'']"
    if "awaits pop = AwaitSubscribe h k \<and> getitem response ''status'' = Inr st
       \<and> st \<noteq> JNumber 200"
    using that by (simp add: continue_def paws_getResponseCodeStatusFromHeader_def emit_def)
  show "continue L (awaits pop) t response s
        = (Inl (Exception ''Unexpected response. Expected 201 but got => %s''),
           emit (ClientLog ERROR ''Unexpected response. Expected 201 but got => %s'') s)"
    if "awaits pop = AwaitLocation \<and> getitem response ''status'' = Inr st \<and> st \<noteq> JNumber 201"
    using that by (simp add: continue_def paws_getLocationFromHeader_def)
  show "continue L (awaits pop) t response s
        = (Inl (Exception ''No response header 'Location' field found''),
           emit (ClientLog ERROR ''No response header 'Location' field found'') s)"
    if "awaits pop = AwaitLocation \<and> getitem response ''status'' = Inr (JNumber 201)
       \<and> getitem response ''headers'' = Inr (JObject hs) \<and> map_of hs ''LOCATION'' = None"
    using that
    by (simp add: continue_def paws_getLocationFromHeader_def map_of_py_in del: py_in.simps)
  show "continue L (awaits pop) t response s
        = (case convertToCosmStructure L m body of
             Inl e \<Rightarrow> Inl e
           | Inr dataStructure \<Rightarrow> Inr (Structure dataStructure), s)"
    if "awaits pop = AwaitBody m \<and> getitem response ''body'' = Inr body"
    using that by (simp add: continue_def split: sum.splits)
qed

theorem C10_unexpected_status_witness:
  "(\<exists>msg. fst (http_after_yield sample_convert ''json''
                 HTTP_create_datapoints
                 (Some (\<lparr>code = 404, phrase = ''Not Found'', headers = []\<rparr>, '''')))
            = [(ERROR, msg)])
   \<and> (snd (http_after_yield sample_convert ''json''
              HTTP_create_datapoints
              (Some (\<lparr>code = 404, phrase = ''Not Found'', headers = []\<rparr>, '''')))
         = Inr HNone
       \<or> snd (http_after_yield sample_convert ''json''
              HTTP_create_datapoints
              (Some (\<lparr>code = 404, phrase = ''Not Found'', headers = []\<rparr>, '''')))
         = Inr (HBool False))
   \<and> (\<exists>e. snd (http_after_yield sample_convert ''json''
                 HTTP_create_feed
                 (Some (\<lparr>code = 201, phrase = ''Created'', headers = []\<rparr>, '''')))
            = Inl e)
   \<and> (\<nexists>e. snd (http_after_yield sample_convert ''json''
                 HTTP_create_feed
                 (Some (\<lparr>code = 201, phrase = ''Created'',
                         headers = [(''location'', [''/v2/feeds/7''])]\<rparr>, '''')))
            = Inl e)
   \<and> pendingResponses (snd (paws_start sample_layer (PAWS_create_feed None) ''t2''
          (connected_client (Some ''key'')))) ''t2'' = Some AwaitLocation
   \<and> fst (continue sample_layer AwaitLocation ''t2''
             (JObject [(''token'', JString ''t2''), (''status'', JNumber 404),
                       (''headers'', JObject [])]) creating_client)
       = Inl (Exception ''Unexpected response. Expected 201 but got => %s'')
   \<and> fst (continue sample_layer AwaitStatus ''t2''
             (JObject [(''token'', JString ''t2''), (''status'', JNumber 404),
                       (''headers'', JObject [])]) creating_client)
       = Inr (Status False)"
proof -
  let ?r = "\<lparr>code = 404, phrase = ''Not Found'', headers = []\<rparr>"
  let ?c = "\<lparr>code = 201, phrase = ''Created'', headers = []\<rparr>"
  let ?l = "\<lparr>code = 201, phrase = ''Created'', headers = [(''location'', [''/v2/feeds/7''])]\<rparr>"
  let ?m = "JObject [(''token'', JString ''t2''), (''status'', JNumber 404),
                       (''headers'', JObject [])]"
  have g: "getitem ?m ''status'' = Inr (JNumber 404)"
    by simp
  have c: "connected (factory (connected_client (Some ''key'')
              :: (kind \<times> (string \<times> json) list) PAWSClient))
      \<and> connection (factory (connected_client (Some ''key'')
              :: (kind \<times> (string \<times> json) list) PAWSClient)) \<noteq> None"
    by (simp add: connected_client_def connected_factory_eval)
  have x: "code ?r \<noteq> expected_code HTTP_create_datapoints"
    "reads_location HTTP_create_feed" "code ?c = 201" "code ?l = 201"
    by (simp_all add: expected_code_def reads_location_def)
  have h: "getRawHeaders ''Location'' (headers ?c) = None"
    "getRawHeaders ''Location'' (headers ?l) = Some [''/v2/feeds/7'']"
    by (simp_all add: getRawHeaders_def lower_def lower_char_def)
  note A = C10_unexpected_status [where convert = sample_convert and format = "''json''" and op = HTTP_create_datapoints
      and r = ?r and b = "''''" and L = sample_layer]
  note B = C10_unexpected_status [where convert = sample_convert and format = "''json''" and op = HTTP_create_feed
      and r = ?c and b = "''''" and L = sample_layer]
  note C = C10_unexpected_status [where convert = sample_convert and format = "''json''" and op = HTTP_create_feed
      and r = ?l and b = "''''" and L = sample_layer]
  note D = C10_unexpected_status [where convert = sample_convert and L = sample_layer and pop = "PAWS_create_feed None"
      and fresh = "''t2''" and s = "connected_client (Some ''key'')"]
  note E = C10_unexpected_status [where convert = sample_convert and L = sample_layer and pop = "PAWS_create_feed None"
      and response = ?m and st = "JNumber 404" and t = "''t2''" and s = creating_client]
  note F = C10_unexpected_status [where convert = sample_convert and L = sample_layer
      and pop = "PAWS_update_feed ''1'' None"
      and response = ?m and st = "JNumber 404" and t = "''t2''" and s = creating_client]
  have 1: "(\<exists>msg. fst (http_after_yield sample_convert ''json'' HTTP_create_datapoints (Some (?r, '''')))
            = [(ERROR, msg)])
      \<and> (snd (http_after_yield sample_convert ''json'' HTTP_create_datapoints (Some (?r, ''''))) = Inr HNone
       \<or> snd (http_after_yield sample_convert ''json'' HTTP_create_datapoints (Some (?r, '''')))
           = Inr (HBool False))"
    using A x(1) by blast
  have 2: "\<exists>e. snd (http_after_yield sample_convert ''json'' HTTP_create_feed (Some (?c, ''''))) = Inl e"
    using B x(2,3) h(1) by blast
  have 3: "\<nexists>e. snd (http_after_yield sample_convert ''json'' HTTP_create_feed (Some (?l, ''''))) = Inl e"
    using C x(2,4) h(2) by simp
  have 4: "pendingResponses (snd (paws_start sample_layer (PAWS_create_feed None) ''t2''
          (connected_client (Some ''key'')))) ''t2'' = Some AwaitLocation"
    using D c by simp
  have 5: "fst (continue sample_layer AwaitLocation ''t2'' ?m creating_client)
       = Inl (Exception ''Unexpected response. Expected 201 but got => %s'')"
    using E g by simp
  have 6: "fst (continue sample_layer AwaitStatus ''t2'' ?m creating_client) = Inr (Status False)"
    using F g by simp
  show ?thesis
    using 1 2 3 4 5 6 by blast
qed

theorem C10_unexpected_status_counterexample:
  \<open>fst (messageHandler sample_layer ''{"token":"t2","status":404,"headers":{}}'' creating_client)
      = None
   \<and> last (events (snd (messageHandler sample_layer ''{"token":"t2","status":404,"headers":{}}''
        creating_client)))
      = Finished ''t2'' (Inl (Exception ''Unexpected response. Expected 201 but got => %s''))\<close>
  by (simp add: creating_client_eval messageHandler_def sample_layer_def sample_messages_def
        Let_def emit_def callback_def continue_def paws_getLocationFromHeader_def)

end
